theory Spec2Isabelle
  imports Complex_Main "HOL-Library.Sublist" "HOL-Library.Word"
begin

section \<open>Go values\<close>

text \<open>
  The credential subject, the credential status and the JSON-LD documents are Go values of
  type \<^verbatim>\<open>interface{}\<close> produced by \<^verbatim>\<open>encoding/json\<close>: nil, bool, float64, string,
  \<^verbatim>\<open>[]interface{}\<close> and \<^verbatim>\<open>map[string]interface{}\<close>. A finite float64 is a rational
  number, and a decoded JSON number is always finite. A Go map is an association list with
  pairwise distinct keys; the order of the list is the order in which \<^verbatim>\<open>range\<close> visits the
  map in the run at hand (Go leaves it unspecified). A Go string is a byte sequence, as is
  a HOL \<^typ>\<open>string\<close>. An \<^verbatim>\<open>error\<close> is represented by the text of its \<^verbatim>\<open>Error()\<close>
  method, and the nil error by \<^term>\<open>None\<close>.
\<close>

datatype jvalue =
    JNull
  | JBool bool
  | JNum rat
  | JStr string
  | JArr "jvalue list"
  | JObj "(string \<times> jvalue) list"

type_synonym gomap = "(string \<times> jvalue) list"

type_synonym err = string

text \<open>
  A Go computation either returns or panics. A panic unwinds every caller up to a deferred
  \<^verbatim>\<open>recover\<close>.
\<close>

datatype 'a outcome = Returns 'a | Panics string

text \<open>
  \<^verbatim>\<open>a != b\<close> on two \<^verbatim>\<open>interface{}\<close> values: values of different dynamic types are
  unequal; values of the same comparable type are compared; two values of the same
  uncomparable dynamic type (slice or map) make the comparison panic.
\<close>

fun go_neq :: "jvalue \<Rightarrow> jvalue \<Rightarrow> bool outcome" where
  "go_neq JNull JNull = Returns False"
| "go_neq (JBool a) (JBool b) = Returns (a \<noteq> b)"
| "go_neq (JNum a) (JNum b) = Returns (a \<noteq> b)"
| "go_neq (JStr a) (JStr b) = Returns (a \<noteq> b)"
| "go_neq (JArr a) (JArr b) =
     Panics ''runtime error: comparing uncomparable type []interface {}''"
| "go_neq (JObj a) (JObj b) =
     Panics ''runtime error: comparing uncomparable type map[string]interface {}''"
| "go_neq a b = Returns True"

text \<open>Values that \<^verbatim>\<open>!=\<close> can compare with a value of their own dynamic type.\<close>

fun comparable :: "jvalue \<Rightarrow> bool" where
  "comparable (JArr a) = False"
| "comparable (JObj a) = False"
| "comparable v = True"

subsection \<open>The functions of package strings that the code calls\<close>

text \<open>
  \<^verbatim>\<open>strings.TrimSpace\<close> removes the leading and trailing white space of a string, white
  space as defined by Unicode. The UTF-8 encodings of the white space code points are:
  U+0009 to U+000D, U+0020, U+0085, U+00A0, U+1680, U+2000 to U+200A, U+2028, U+2029,
  U+202F, U+205F and U+3000.
\<close>

definition space_encodings :: "string list" where
  "space_encodings =
     [[CHR 0x09], [CHR 0x0A], [CHR 0x0B], [CHR 0x0C], [CHR 0x0D], [CHR 0x20],
      [CHR 0xC2, CHR 0x85], [CHR 0xC2, CHR 0xA0],
      [CHR 0xE1, CHR 0x9A, CHR 0x80],
      [CHR 0xE2, CHR 0x80, CHR 0x80], [CHR 0xE2, CHR 0x80, CHR 0x81],
      [CHR 0xE2, CHR 0x80, CHR 0x82], [CHR 0xE2, CHR 0x80, CHR 0x83],
      [CHR 0xE2, CHR 0x80, CHR 0x84], [CHR 0xE2, CHR 0x80, CHR 0x85],
      [CHR 0xE2, CHR 0x80, CHR 0x86], [CHR 0xE2, CHR 0x80, CHR 0x87],
      [CHR 0xE2, CHR 0x80, CHR 0x88], [CHR 0xE2, CHR 0x80, CHR 0x89],
      [CHR 0xE2, CHR 0x80, CHR 0x8A],
      [CHR 0xE2, CHR 0x80, CHR 0xA8], [CHR 0xE2, CHR 0x80, CHR 0xA9],
      [CHR 0xE2, CHR 0x80, CHR 0xAF],
      [CHR 0xE2, CHR 0x81, CHR 0x9F],
      [CHR 0xE3, CHR 0x80, CHR 0x80]]"

text \<open>The number of bytes of the white space code point a string starts with, or 0.\<close>

definition leading_space :: "string \<Rightarrow> nat" where
  "leading_space s =
     (if take 1 s \<in> set space_encodings then 1
      else if take 2 s \<in> set space_encodings then 2
      else if take 3 s \<in> set space_encodings then 3
      else 0)"

text \<open>The number of bytes of the white space code point a string ends with, or 0.\<close>

definition trailing_space :: "string \<Rightarrow> nat" where
  "trailing_space s =
     (if rev (take 1 (rev s)) \<in> set space_encodings then 1
      else if rev (take 2 (rev s)) \<in> set space_encodings then 2
      else if rev (take 3 (rev s)) \<in> set space_encodings then 3
      else 0)"

lemma leading_space_Nil: "leading_space [] = 0"
  by (simp add: leading_space_def space_encodings_def)

lemma trailing_space_Nil: "trailing_space [] = 0"
  by (simp add: trailing_space_def space_encodings_def)

function TrimLeft :: "string \<Rightarrow> string" where
  "TrimLeft s = (if leading_space s = 0 then s else TrimLeft (drop (leading_space s) s))"
  by pat_completeness auto
termination
proof (relation "measure length")
  show "wf (measure length)" by simp
next
  fix s :: string
  assume "leading_space s \<noteq> 0"
  then have "s \<noteq> []" using leading_space_Nil by auto
  with \<open>leading_space s \<noteq> 0\<close> show "(drop (leading_space s) s, s) \<in> measure length"
    by simp
qed

function TrimRight :: "string \<Rightarrow> string" where
  "TrimRight s =
     (if trailing_space s = 0 then s else TrimRight (take (length s - trailing_space s) s))"
  by pat_completeness auto
termination
proof (relation "measure length")
  show "wf (measure length)" by simp
next
  fix s :: string
  assume "trailing_space s \<noteq> 0"
  then have "s \<noteq> []" using trailing_space_Nil by auto
  with \<open>trailing_space s \<noteq> 0\<close>
  show "(take (length s - trailing_space s) s, s) \<in> measure length"
    by simp
qed

declare TrimLeft.simps [simp del] TrimRight.simps [simp del]

definition TrimSpace :: "string \<Rightarrow> string" where
  "TrimSpace s = TrimRight (TrimLeft s)"

text \<open>\<^verbatim>\<open>strings.Contains(s, substr)\<close>: \<^verbatim>\<open>substr\<close> occurs in \<^verbatim>\<open>s\<close> as a contiguous run.\<close>

definition Contains :: "string \<Rightarrow> string \<Rightarrow> bool" where
  "Contains s substr = sublist substr s"

section \<open>The credential\<close>

text \<open>
  The fields of \<^verbatim>\<open>verifiable.W3CCredential\<close> that the service reads or writes. A nil
  pointer, a nil slice and a nil map are \<^term>\<open>None\<close>; a nil \<^verbatim>\<open>interface{}\<close> is
  \<^term>\<open>JNull\<close>. A point in time is its number of nanoseconds since the Unix epoch, a
  duration a number of nanoseconds. The other fields of the Go struct are neither read
  nor written by the service.
\<close>

type_synonym time = int

record reference =
  ref_ID :: string
  ref_Type :: string

record credential =
  ID :: string
  Context :: "string list option"
  Type :: "string list option"
  Expiration :: "time option"
  CredentialSubject :: "gomap option"
  CredentialStatus :: jvalue
  Issuer :: string
  CredentialSchema_ID :: string
  RefreshService :: "reference option"
  DisplayMethod :: "reference option"

section \<open>Eligibility\<close>

text \<open>
  \<^verbatim>\<open>isUpdatable\<close> (refresh.go, lines 201 to 232). The argument \<open>now\<close> is the value of
  \<^verbatim>\<open>time.Now()\<close> at line 210; \<^verbatim>\<open>Expiration.After(now)\<close> is the strict order of the two
  instants. Reading a nil map finds no key.
\<close>

definition isUpdatable :: "time \<Rightarrow> credential option \<Rightarrow> err option" where
  "isUpdatable now credential =
     (case credential of
        None \<Rightarrow> Some ''nil credential''
      | Some c \<Rightarrow>
         (case Expiration c of
            None \<Rightarrow> Some ''credential expiration is nil''
          | Some expiration \<Rightarrow>
             if now < expiration then Some ''not expired''
             else
               (case CredentialSubject c of
                  None \<Rightarrow> Some ''credential subject is nil''
                | Some subject \<Rightarrow>
                   (case map_of subject ''id'' of
                      None \<Rightarrow> Some ''id field missing in credentialSubject''
                    | Some JNull \<Rightarrow> Some ''id field is nil in credentialSubject''
                    | Some (JStr idVal) \<Rightarrow>
                       if TrimSpace idVal = ''''
                       then Some ''credential subject does not have a valid id''
                       else None
                    | Some _ \<Rightarrow> Some ''credential subject does not have a valid id''))))"

text \<open>\<^verbatim>\<open>checkOwnerShip\<close> (refresh.go, lines 234 to 252).\<close>

definition checkOwnerShip :: "credential option \<Rightarrow> string \<Rightarrow> err option" where
  "checkOwnerShip credential owner =
     (case credential of
        None \<Rightarrow> Some ''nil credential''
      | Some c \<Rightarrow>
         (case CredentialSubject c of
            None \<Rightarrow> Some ''credential subject is nil''
          | Some subject \<Rightarrow>
             (case map_of subject ''id'' of
                None \<Rightarrow> Some ''credential subject does not have an id field''
              | Some idValue \<Rightarrow>
                 if idValue \<noteq> JStr owner then Some ''not owner of the credential''
                 else None)))"

section \<open>The collaborators\<close>

text \<open>
  The JSON-LD document loader (\<^verbatim>\<open>ld.DocumentLoader\<close>): \<^verbatim>\<open>LoadDocument\<close> returns an
  error, a nil document pointer, or a document whose \<^verbatim>\<open>Document\<close> field is any value.
\<close>

record remote_document =
  Document :: jvalue

type_synonym document_loader = "string \<Rightarrow> err + remote_document option"

text \<open>
  The update provider (\<^verbatim>\<open>flexiblehttp.FlexibleHTTP\<close>): \<^verbatim>\<open>Provide\<close> returns an error or
  a map, which may be nil, of values of the kinds above; the provider does not write to
  the subject it is given. \<^verbatim>\<open>Settings.TimeExpiration\<close> is a duration.
\<close>

record flexible_http =
  Provide :: "gomap \<Rightarrow> err + gomap option"
  TimeExpiration :: int

type_synonym factory = "string \<Rightarrow> err + flexible_http"

text \<open>The three merklized root positions of \<^verbatim>\<open>go-iden3-core\<close>.\<close>

datatype position = MerklizedRootPositionNone | MerklizedRootPositionIndex
  | MerklizedRootPositionValue

record core_claim =
  GetMerklizedPosition :: "err + position"

record credentialRequest =
  req_CredentialSchema :: string
  req_Type :: string
  req_CredentialSubject :: "gomap option"
  req_Expiration :: int
  req_RefreshService :: "reference option"
  req_RevNonce :: "64 word option"
  req_DisplayMethod :: "reference option"

record http_request =
  http_method :: string
  http_url :: string
  http_auth :: "(string \<times> string) option"
  http_body :: "string option"

record http_response =
  StatusCode :: int
  Body :: "err + string"

text \<open>
  What a run does to the issuing authority, in order: the calls of the two methods of
  \<^verbatim>\<open>IssuerService\<close> and the HTTP requests handed to the client. The trace also
  records the result of the index impact check at the moment the check returns.
\<close>

datatype event =
    GetClaimByID_call string string
  | CreateCredential_call string credentialRequest
  | HTTP_Do http_request
  | IndexImpact_verdict "err option"

text \<open>
  The HTTP client answers a request with an error or a response; its answer may depend on
  what the issuing authority has been asked before. \<^verbatim>\<open>Body\<close> is what reading the
  response body to its end gives.
\<close>

record IssuerService =
  supportedIssuers :: "string \<rightharpoonup> string"
  issuerBasicAuth :: "(string \<rightharpoonup> string) option"
  client :: "event list \<Rightarrow> http_request \<Rightarrow> err + http_response"

record RefreshService =
  issuerService :: "IssuerService option"
  documentLoader :: "document_loader option"
  providers :: factory

text \<open>
  The library functions whose results the model does not compute. \<^verbatim>\<open>ParseClaim\<close> and
  \<^verbatim>\<open>GetFieldSlotIndex\<close> are the claim parser of \<^verbatim>\<open>go-schema-processor\<close>,
  \<^verbatim>\<open>TypeIDFromContext\<close> its merklizer; the others belong to Go's standard library.
  \<^verbatim>\<open>float64_to_uint64\<close> is the result of the conversion \<^verbatim>\<open>uint64(n)\<close> where the language
  leaves it to the implementation. The bytes that \<^verbatim>\<open>json.Marshal\<close> produces are
  represented by the value they encode, except for the body of an HTTP request.
\<close>

record externals =
  ParseClaim :: "document_loader option \<Rightarrow> credential \<Rightarrow> err + core_claim"
  GetFieldSlotIndex :: "string \<Rightarrow> string \<Rightarrow> jvalue \<Rightarrow> err + int"
  TypeIDFromContext :: "document_loader option \<Rightarrow> credential \<Rightarrow> string \<Rightarrow> err + string"
  float64_to_uint64 :: "rat \<Rightarrow> 64 word"
  http_NewRequest :: "string \<Rightarrow> string \<Rightarrow> err option"
  json_Marshal_request :: "credentialRequest \<Rightarrow> err + string"
  json_Unmarshal_vc :: "string \<Rightarrow> err + credential"
  json_Decode_id :: "string \<Rightarrow> err + string"
  Sprintf_d :: "int \<Rightarrow> string"
  Sprintf_q :: "string \<Rightarrow> string"

section \<open>Context aggregation\<close>

text \<open>
  \<^verbatim>\<open>loadContexts\<close> (refresh.go, lines 332 to 382). The loop appends to the slice
  \<^verbatim>\<open>res.Contexts\<close>, which starts nil: \<^verbatim>\<open>append\<close> of no element leaves a nil slice nil,
  and \<^verbatim>\<open>json.Marshal\<close> writes a nil slice as \<^verbatim>\<open>null\<close> and an empty one as \<^verbatim>\<open>[]\<close>.
\<close>

definition append_slice :: "jvalue list option \<Rightarrow> jvalue list \<Rightarrow> jvalue list option" where
  "append_slice s vs =
     (case s of
        None \<Rightarrow> (if vs = [] then None else Some vs)
      | Some xs \<Rightarrow> Some (xs @ vs))"

fun loadContexts_loop ::
  "document_loader \<Rightarrow> jvalue list option \<Rightarrow> string list \<Rightarrow> jvalue list option" where
  "loadContexts_loop loader res [] = res"
| "loadContexts_loop loader res (context # contexts) =
     (if context = '''' then loadContexts_loop loader res contexts
      else
        (case loader context of
           Inl e \<Rightarrow> loadContexts_loop loader res contexts
         | Inr None \<Rightarrow> loadContexts_loop loader res contexts
         | Inr (Some remoteDocument) \<Rightarrow>
            (case Document remoteDocument of
               JObj document \<Rightarrow>
                 (case map_of document ''@context'' of
                    None \<Rightarrow> loadContexts_loop loader res contexts
                  | Some (JArr v) \<Rightarrow> loadContexts_loop loader (append_slice res v) contexts
                  | Some ldContext \<Rightarrow>
                      loadContexts_loop loader (append_slice res [ldContext]) contexts)
             | _ \<Rightarrow> loadContexts_loop loader res contexts)))"

definition marshal_uploadedContexts :: "jvalue list option \<Rightarrow> jvalue" where
  "marshal_uploadedContexts res =
     JObj [(''@context'', case res of None \<Rightarrow> JNull | Some xs \<Rightarrow> JArr xs)]"

definition loadContexts :: "RefreshService \<Rightarrow> string list option \<Rightarrow> err + jvalue" where
  "loadContexts rs contexts =
     (case documentLoader rs of
        None \<Rightarrow> Inl ''documentLoader is nil in loadContexts''
      | Some loader \<Rightarrow>
         (case contexts of
            None \<Rightarrow> Inr (JObj [(''@context'', JArr [])])
          | Some cs \<Rightarrow>
             if length cs = 0 then Inr (JObj [(''@context'', JArr [])])
             else Inr (marshal_uploadedContexts (loadContexts_loop loader None cs))))"

section \<open>Revocation nonce\<close>

text \<open>
  The conversion \<^verbatim>\<open>uint64(n)\<close> of a float64 discards the fraction. Where the truncated
  value is a uint64 it is the result; elsewhere the result is the implementation's.
\<close>

definition trunc_zero :: "rat \<Rightarrow> int" where
  "trunc_zero n = (if 0 \<le> n then \<lfloor>n\<rfloor> else \<lceil>n\<rceil>)"

definition uint64 :: "externals \<Rightarrow> rat \<Rightarrow> 64 word" where
  "uint64 ext n =
     (if 0 \<le> trunc_zero n \<and> trunc_zero n < 2 ^ 64 then word_of_int (trunc_zero n)
      else float64_to_uint64 ext n)"

text \<open>\<^verbatim>\<open>extractRevocationNonce\<close> (refresh.go, lines 384 to 401).\<close>

definition extractRevocationNonce :: "externals \<Rightarrow> credential option \<Rightarrow> err + 64 word" where
  "extractRevocationNonce ext credential =
     (case credential of
        None \<Rightarrow> Inl ''nil credential in extractRevocationNonce''
      | Some c \<Rightarrow>
         (case CredentialStatus c of
            JObj credentialStatusInfo \<Rightarrow>
              (case map_of credentialStatusInfo ''revocationNonce'' of
                 None \<Rightarrow> Inl ''revocationNonce not found in credential status''
               | Some (JNum n) \<Rightarrow> Inr (uint64 ext n)
               | Some _ \<Rightarrow> Inl ''revocationNonce is not a number'')
          | _ \<Rightarrow> Inl ''invalid credential status''))"

section \<open>Index impact\<close>

definition errIndexSlotsNotUpdated :: err where
  "errIndexSlotsNotUpdated = ''no index fields were updated''"

definition ErrCredentialNotUpdatable :: err where
  "ErrCredentialNotUpdatable = ''not updatable''"

text \<open>
  The loop of \<^verbatim>\<open>isUpdatedIndexSlots\<close> (refresh.go, lines 293 to 327) over the entries
  of \<^verbatim>\<open>oldValues\<close> still to visit. \<^term>\<open>Returns None\<close>: the loop ends without a
  \<^verbatim>\<open>return\<close>; \<^term>\<open>Returns (Some r)\<close>: the function returns \<open>r\<close> from inside the loop.
\<close>

fun index_loop ::
  "externals \<Rightarrow> jvalue \<Rightarrow> gomap \<Rightarrow> gomap \<Rightarrow> gomap \<Rightarrow> err option option outcome" where
  "index_loop ext credentialBytes oldValues newValues [] = Returns None"
| "index_loop ext credentialBytes oldValues newValues ((k, v) # rest) =
     (if k = ''type'' \<or> k = ''id''
      then index_loop ext credentialBytes oldValues newValues rest
      else
        (case map_of oldValues ''type'' of
           Some (JStr typeStr) \<Rightarrow>
             (case GetFieldSlotIndex ext k typeStr credentialBytes of
                Inl e \<Rightarrow>
                  if Contains e ''not specified in serialization info''
                  then Returns (Some None)
                  else Returns (Some (Some e))
              | Inr slotIndex \<Rightarrow>
                  (case map_of newValues k of
                     None \<Rightarrow> index_loop ext credentialBytes oldValues newValues rest
                   | Some newValue \<Rightarrow>
                       if slotIndex = 2 \<or> slotIndex = 3
                       then
                         (case go_neq v newValue of
                            Panics msg \<Rightarrow> Panics msg
                          | Returns True \<Rightarrow> Returns (Some None)
                          | Returns False \<Rightarrow>
                              index_loop ext credentialBytes oldValues newValues rest)
                       else index_loop ext credentialBytes oldValues newValues rest))
         | _ \<Rightarrow> index_loop ext credentialBytes oldValues newValues rest))"

text \<open>
  \<^verbatim>\<open>isUpdatedIndexSlots\<close> (refresh.go, lines 254 to 330). The function writes to the
  credential it is given a pointer to (line 286), so the model returns the credential as
  it stands afterwards together with the result. A nil result is the verdict "updated".
\<close>

definition isUpdatedIndexSlots ::
  "RefreshService \<Rightarrow> externals \<Rightarrow> credential option \<Rightarrow> gomap \<Rightarrow> gomap
   \<Rightarrow> credential option \<times> err option outcome" where
  "isUpdatedIndexSlots rs ext credential oldValues newValues =
     (case credential of
        None \<Rightarrow> (None, Returns (Some ''nil credential in isUpdatedIndexSlots''))
      | Some c \<Rightarrow>
         (case ParseClaim ext (documentLoader rs) c of
            Inl e \<Rightarrow> (Some c, Returns (Some (''invalid w3c credential: '' @ e)))
          | Inr claim \<Rightarrow>
             (case GetMerklizedPosition claim of
                Inl e \<Rightarrow> (Some c, Returns (Some (''failed to get merklized position: '' @ e)))
              | Inr MerklizedRootPositionIndex \<Rightarrow> (Some c, Returns None)
              | Inr MerklizedRootPositionValue \<Rightarrow>
                  (Some c, Returns (Some errIndexSlotsNotUpdated))
              | Inr MerklizedRootPositionNone \<Rightarrow>
                  (let c' = (if Context c = None then c\<lparr>Context := Some []\<rparr> else c)
                   in case loadContexts rs (Context c') of
                        Inl e \<Rightarrow> (Some c', Returns (Some (''failed to load contexts: '' @ e)))
                      | Inr credentialBytes \<Rightarrow>
                         (case index_loop ext credentialBytes oldValues newValues oldValues of
                            Panics msg \<Rightarrow> (Some c', Panics msg)
                          | Returns (Some r) \<Rightarrow> (Some c', Returns r)
                          | Returns None \<Rightarrow>
                              (Some c', Returns (Some errIndexSlotsNotUpdated)))))))"

section \<open>The issuing authority\<close>

definition ErrIssuerNotSupported :: err where
  "ErrIssuerNotSupported = ''issuer is not supported''"

definition ErrGetClaim :: err where
  "ErrGetClaim = ''failed to get claim''"

definition ErrCreateClaim :: err where
  "ErrCreateClaim = ''failed to create claim''"

text \<open>
  \<^verbatim>\<open>errors.Wrap(err, msg)\<close> and \<^verbatim>\<open>errors.Wrapf(err, format, ...)\<close> of
  \<^verbatim>\<open>github.com/pkg/errors\<close>: the text of the new error is the message, a colon and the
  text of the wrapped error.
\<close>

definition Wrap :: "err \<Rightarrow> string \<Rightarrow> err" where
  "Wrap e msg = msg @ '': '' @ e"

text \<open>\<^verbatim>\<open>getIssuerURL\<close> (part_000, lines 133 to 141).\<close>

definition getIssuerURL :: "IssuerService \<Rightarrow> string \<Rightarrow> err + string" where
  "getIssuerURL is issuerDID =
     (case supportedIssuers is issuerDID of
        Some url \<Rightarrow> Inr url
      | None \<Rightarrow>
         (case supportedIssuers is ''*'' of
            Some url \<Rightarrow> Inr url
          | None \<Rightarrow> Inl (Wrap ErrIssuerNotSupported (''id '' @ [CHR 0x27] @ issuerDID @ [CHR 0x27]))))"

text \<open>
  \<^verbatim>\<open>strings.SplitN(namepass, ":", 2)\<close> has two parts exactly when the string has a
  colon: what is before the first colon, and what is after it.
\<close>

definition split_namepass :: "externals \<Rightarrow> string \<Rightarrow> err + (string \<times> string) option" where
  "split_namepass ext namepass =
     (if CHR '':'' \<in> set namepass
      then Inr (Some (takeWhile (\<lambda>c. c \<noteq> CHR '':'') namepass,
                      tl (dropWhile (\<lambda>c. c \<noteq> CHR '':'') namepass)))
      else Inl (''invalid basic auth: '' @ Sprintf_q ext namepass))"

text \<open>
  \<^verbatim>\<open>setBasicAuth\<close> (part_000, lines 144 to 165): the error, or the name and password it
  sets on the request, if any.
\<close>

definition setBasicAuth ::
  "externals \<Rightarrow> IssuerService \<Rightarrow> string \<Rightarrow> err + (string \<times> string) option" where
  "setBasicAuth ext is issuerDID =
     (case issuerBasicAuth is of
        None \<Rightarrow> Inr None
      | Some auth \<Rightarrow>
         (case auth issuerDID of
            Some namepass \<Rightarrow> split_namepass ext namepass
          | None \<Rightarrow>
             (case auth ''*'' of
                None \<Rightarrow> Inr None
              | Some namepass \<Rightarrow> split_namepass ext namepass)))"

text \<open>
  \<^verbatim>\<open>GetClaimByID\<close> (part_000, lines 45 to 87), from the trace so far to the trace
  afterwards and the pair of results.
\<close>

definition GetClaimByID ::
  "externals \<Rightarrow> IssuerService \<Rightarrow> event list \<Rightarrow> string \<Rightarrow> string
   \<Rightarrow> event list \<times> (credential option \<times> err option)" where
  "GetClaimByID ext is tr issuerDID claimID =
     (let tr0 = tr @ [GetClaimByID_call issuerDID claimID] in
      case getIssuerURL is issuerDID of
        Inl e \<Rightarrow> (tr0, (None, Some e))
      | Inr issuerNode \<Rightarrow>
         (let url = issuerNode @ ''/v2/identities/'' @ issuerDID @ ''/credentials/'' @ claimID in
          case http_NewRequest ext ''GET'' url of
            Some e \<Rightarrow> (tr0, (None, Some (Wrap ErrGetClaim (''failed to create http request: '' @ e))))
          | None \<Rightarrow>
             (case setBasicAuth ext is issuerDID of
                Inl e \<Rightarrow> (tr0, (None, Some e))
              | Inr auth \<Rightarrow>
                 (let req = \<lparr>http_method = ''GET'', http_url = url, http_auth = auth,
                              http_body = None\<rparr>;
                      tr1 = tr0 @ [HTTP_Do req] in
                  case client is tr0 req of
                    Inl e \<Rightarrow> (tr1, (None, Some (Wrap ErrGetClaim (''failed http GET request: '' @ e))))
                  | Inr resp \<Rightarrow>
                     if StatusCode resp \<noteq> 200
                     then (tr1, (None, Some (Wrap ErrGetClaim
                             (''invalid status code: '' @ Sprintf_d ext (StatusCode resp)))))
                     else
                       (case Body resp of
                          Inl e \<Rightarrow> (tr1, (None, Some (Wrap ErrGetClaim
                                      (''failed to read response body: '' @ e))))
                        | Inr rawBody \<Rightarrow>
                           (case json_Unmarshal_vc ext rawBody of
                              Inl e \<Rightarrow> (tr1, (None, Some (Wrap ErrGetClaim
                                          (''failed to decode response: '' @ e))))
                            | Inr vc \<Rightarrow> (tr1, (Some vc, None))))))))"

text \<open>\<^verbatim>\<open>CreateCredential\<close> (part_000, lines 90 to 130).\<close>

definition CreateCredential ::
  "externals \<Rightarrow> IssuerService \<Rightarrow> event list \<Rightarrow> string \<Rightarrow> credentialRequest
   \<Rightarrow> event list \<times> (string \<times> err option)" where
  "CreateCredential ext is tr issuerDID credReq =
     (let tr0 = tr @ [CreateCredential_call issuerDID credReq] in
      case getIssuerURL is issuerDID of
        Inl e \<Rightarrow> (tr0, ('''', Some e))
      | Inr issuerNode \<Rightarrow>
         (case json_Marshal_request ext credReq of
            Inl e \<Rightarrow> (tr0, ('''', Some (Wrap ErrCreateClaim
                        ''credential request serialization error'')))
          | Inr body \<Rightarrow>
             (let url = issuerNode @ ''/v2/identities/'' @ issuerDID @ ''/credentials'' in
              case http_NewRequest ext ''POST'' url of
                Some e \<Rightarrow> (tr0, ('''', Some (Wrap ErrCreateClaim
                            (''failed to create http request: '' @ e))))
              | None \<Rightarrow>
                 (case setBasicAuth ext is issuerDID of
                    Inl e \<Rightarrow> (tr0, ('''', Some e))
                  | Inr auth \<Rightarrow>
                     (let req = \<lparr>http_method = ''POST'', http_url = url, http_auth = auth,
                                  http_body = Some body\<rparr>;
                          tr1 = tr0 @ [HTTP_Do req] in
                      case client is tr0 req of
                        Inl e \<Rightarrow> (tr1, ('''', Some (Wrap ErrCreateClaim
                                    (''failed http POST request: '' @ e))))
                      | Inr resp \<Rightarrow>
                         if StatusCode resp \<noteq> 201
                         then (tr1, ('''', Some (Wrap ErrCreateClaim ''invalid status code'')))
                         else
                           (case Body resp of
                              Inl e \<Rightarrow> (tr1, ('''', Some (Wrap ErrCreateClaim
                                          (''failed to decode response: '' @ e))))
                            | Inr raw \<Rightarrow>
                               (case json_Decode_id ext raw of
                                  Inl e \<Rightarrow> (tr1, ('''', Some (Wrap ErrCreateClaim
                                              (''failed to decode response: '' @ e))))
                                | Inr newID \<Rightarrow> (tr1, (newID, None)))))))))"

section \<open>The refresh pipeline\<close>

text \<open>
  The merge step (refresh.go, lines 162 to 164): every entry of \<^verbatim>\<open>updatedFields\<close> is
  assigned to the subject, in the order \<^verbatim>\<open>range\<close> visits them.
\<close>

fun assign :: "string \<Rightarrow> jvalue \<Rightarrow> gomap \<Rightarrow> gomap" where
  "assign k v [] = [(k, v)]"
| "assign k v ((k', v') # m) = (if k' = k then (k, v) # m else (k', v') # assign k v m)"

fun merge_subject :: "gomap \<Rightarrow> gomap \<Rightarrow> gomap" where
  "merge_subject subject [] = subject"
| "merge_subject subject ((k, v) # updatedFields) =
     merge_subject (assign k v subject) updatedFields"

text \<open>
  A run of \<^verbatim>\<open>Process\<close>: the fetched credential as it stands in memory when the body
  ends (if one was fetched), what was done to the issuing authority, and how the body
  ended.
\<close>

record run =
  memory :: "credential option"
  trace :: "event list"
  outcome :: "(credential option \<times> err option) outcome"

definition fails :: "credential option \<Rightarrow> event list \<Rightarrow> err \<Rightarrow> run" where
  "fails m tr e = \<lparr>memory = m, trace = tr, outcome = Returns (None, Some e)\<rparr>"

text \<open>
  The end of the body of \<^verbatim>\<open>Process\<close> (refresh.go, lines 166 to 198), after the merge
  step: the revocation nonce, the request to the issuing authority and the second fetch.
  \<open>now\<close> is the value of \<^verbatim>\<open>time.Now()\<close> at line 187; \<^verbatim>\<open>Unix()\<close> is the number of
  whole seconds.
\<close>

definition Process_submit ::
  "externals \<Rightarrow> IssuerService \<Rightarrow> time \<Rightarrow> event list \<Rightarrow> string \<Rightarrow> credential \<Rightarrow> string
   \<Rightarrow> int \<Rightarrow> run" where
  "Process_submit ext is now tr issuer credential subjectType timeExpiration =
     (case extractRevocationNonce ext (Some credential) of
        Inl e \<Rightarrow> fails (Some credential) tr e
      | Inr revNonce \<Rightarrow>
          if CredentialSchema_ID credential = ''''
          then fails (Some credential) tr ''credential schema ID is empty''
          else
            (let credReq =
                   \<lparr>req_CredentialSchema = CredentialSchema_ID credential,
                    req_Type = subjectType,
                    req_CredentialSubject = CredentialSubject credential,
                    req_Expiration = (now + timeExpiration) div 1000000000,
                    req_RefreshService = RefreshService credential,
                    req_RevNonce = Some revNonce,
                    req_DisplayMethod = DisplayMethod credential\<rparr>
             in case CreateCredential ext is tr issuer credReq of
                  (tr', (refreshedID, Some e)) \<Rightarrow> fails (Some credential) tr' e
                | (tr', (refreshedID, None)) \<Rightarrow>
                    (case GetClaimByID ext is tr' issuer refreshedID of
                       (tr'', r) \<Rightarrow>
                         \<lparr>memory = Some credential, trace = tr'', outcome = Returns r\<rparr>)))"

text \<open>
  The second half of the body of \<^verbatim>\<open>Process\<close> (refresh.go, lines 158 to 198), from the
  index impact check on. Line 163 reads the subject through the credential pointer, which
  panics on a nil pointer.
\<close>

definition Process_reissue ::
  "RefreshService \<Rightarrow> externals \<Rightarrow> IssuerService \<Rightarrow> time \<Rightarrow> event list \<Rightarrow> string
   \<Rightarrow> credential \<Rightarrow> gomap \<Rightarrow> string \<Rightarrow> int \<Rightarrow> gomap \<Rightarrow> run" where
  "Process_reissue rs ext is now tr issuer credential subject subjectType timeExpiration
     updatedFields =
     (case isUpdatedIndexSlots rs ext (Some credential) subject updatedFields of
        (m, r) \<Rightarrow>
          (case r of
             Panics msg \<Rightarrow> \<lparr>memory = m, trace = tr, outcome = Panics msg\<rparr>
           | Returns (Some e) \<Rightarrow>
               fails m (tr @ [IndexImpact_verdict (Some e)])
                 (Wrap ErrCredentialNotUpdatable (''index update fail: '' @ e))
           | Returns None \<Rightarrow>
               (case m of
                  None \<Rightarrow>
                    \<lparr>memory = None, trace = tr @ [IndexImpact_verdict None],
                     outcome = Panics
                       ''runtime error: invalid memory address or nil pointer dereference''\<rparr>
                | Some c \<Rightarrow>
                    Process_submit ext is now (tr @ [IndexImpact_verdict None]) issuer
                      (c\<lparr>CredentialSubject := Some (merge_subject subject updatedFields)\<rparr>)
                      subjectType timeExpiration)))"

text \<open>
  The body of \<^verbatim>\<open>Process\<close> (refresh.go, lines 63 to 198). \<open>now\<close> is the value of
  \<^verbatim>\<open>time.Now()\<close> inside \<^verbatim>\<open>isUpdatable\<close>, \<open>now'\<close> the later one at line 187. The
  marshalled credential handed to \<^verbatim>\<open>TypeIDFromContext\<close> is represented by the
  credential, and the argument \<^verbatim>\<open>id\<close> is called \<open>credID\<close>. Five minutes are
  300000000000 nanoseconds.
\<close>

definition Process_body ::
  "RefreshService \<Rightarrow> externals \<Rightarrow> time \<Rightarrow> time \<Rightarrow> string \<Rightarrow> string \<Rightarrow> string \<Rightarrow> run" where
  "Process_body rs ext now now' issuer owner credID =
     (case issuerService rs of
        None \<Rightarrow> fails None [] ''issuerService is nil''
      | Some is \<Rightarrow>
     (case documentLoader rs of
        None \<Rightarrow> fails None [] ''documentLoader is nil''
      | Some loader \<Rightarrow>
     (case GetClaimByID ext is [] issuer credID of
        (tr, (fetched, er)) \<Rightarrow>
     (case er of
        Some e \<Rightarrow> fails fetched tr e
      | None \<Rightarrow>
     (case fetched of
        None \<Rightarrow> fails None tr ''GetClaimByID returned nil credential''
      | Some credential \<Rightarrow>
     (let m = Some credential in
      if Issuer credential = '''' then fails m tr ''credential issuer is empty''
      else if ID credential = '''' then fails m tr ''credential ID is empty''
      else if Type credential = None then fails m tr ''credential type is nil''
      else if Expiration credential = None then fails m tr ''credential expiration is nil''
      else
     (case CredentialSubject credential of
        None \<Rightarrow> fails m tr ''credential subject is nil''
      | Some subject \<Rightarrow>
     (case isUpdatable now m of
        Some e \<Rightarrow>
          fails m tr (Wrap ErrCredentialNotUpdatable
            (''credential '' @ [CHR 0x27] @ ID credential @ [CHR 0x27] @ '': '' @ e))
      | None \<Rightarrow>
     (case checkOwnerShip m owner of
        Some e \<Rightarrow>
          fails m tr (Wrap ErrCredentialNotUpdatable
            (''credential '' @ [CHR 0x27] @ ID credential @ [CHR 0x27] @ '': '' @ e))
      | None \<Rightarrow>
     (case map_of subject ''type'' of
        None \<Rightarrow> fails m tr ''type field missing in credentialSubject''
      | Some JNull \<Rightarrow> fails m tr ''type field is nil in credentialSubject''
      | Some (JStr subjectType) \<Rightarrow>
          if subjectType = '''' then fails m tr ''invalid or missing type in credentialSubject''
          else
     (case TypeIDFromContext ext (documentLoader rs) credential subjectType of
        Inl e \<Rightarrow> fails m tr e
      | Inr credentialType \<Rightarrow>
     (case providers rs credentialType of
        Inl e \<Rightarrow>
          fails m tr (Wrap ErrCredentialNotUpdatable
            (''for credential '' @ [CHR 0x27] @ ID credential @ [CHR 0x27]
               @ '' no provider: '' @ e))
      | Inr flexibleHTTP \<Rightarrow>
     (case Provide flexibleHTTP subject of
        Inl e \<Rightarrow> fails m tr e
      | Inr provided \<Rightarrow>
     (let updatedFields = (case provided of None \<Rightarrow> [] | Some provided_map \<Rightarrow> provided_map);
          timeExpiration =
            (if TimeExpiration flexibleHTTP = 0 then 300000000000
             else TimeExpiration flexibleHTTP)
      in Process_reissue rs ext is now' tr issuer credential subject subjectType
           timeExpiration updatedFields))))
      | Some _ \<Rightarrow> fails m tr ''invalid or missing type in credentialSubject''))))))))))"

text \<open>
  \<^verbatim>\<open>Process\<close> (refresh.go, lines 53 to 199). The deferred function (lines 57 to 61)
  recovers a panic of the body and writes a log line; the results of \<^verbatim>\<open>Process\<close> are
  unnamed, so after a recovered panic the caller receives their zero values.
\<close>

definition Process ::
  "RefreshService \<Rightarrow> externals \<Rightarrow> time \<Rightarrow> time \<Rightarrow> string \<Rightarrow> string \<Rightarrow> string
   \<Rightarrow> credential option \<times> err option" where
  "Process rs ext now now' issuer owner credID =
     (case outcome (Process_body rs ext now now' issuer owner credID) of
        Returns r \<Rightarrow> r
      | Panics msg \<Rightarrow> (None, None))"

section \<open>The conditions the specification names\<close>

text \<open>
  The expiration lies strictly after the current time. A credential without an
  expiration has none that lies after it.
\<close>

definition expires_after :: "time \<Rightarrow> credential \<Rightarrow> bool" where
  "expires_after now c = (case Expiration c of None \<Rightarrow> False | Some t \<Rightarrow> now < t)"

text \<open>
  The entry \<^verbatim>\<open>id\<close> of the subject is missing, null, not a string, or blank after
  trimming white space.
\<close>

definition subject_id_invalid :: "credential \<Rightarrow> bool" where
  "subject_id_invalid c =
     (case CredentialSubject c of
        None \<Rightarrow> True
      | Some subject \<Rightarrow>
         (case map_of subject ''id'' of
            None \<Rightarrow> True
          | Some JNull \<Rightarrow> True
          | Some (JStr s) \<Rightarrow> TrimSpace s = ''''
          | Some _ \<Rightarrow> True))"

text \<open>
  What one context URI contributes to the aggregate, in the words of the specification:
  nothing if it does not resolve (load error, missing document, a document that is not a
  map, no \<^verbatim>\<open>@context\<close> key); the elements of an array-valued \<^verbatim>\<open>@context\<close>; any other
  \<^verbatim>\<open>@context\<close> value as it is.
\<close>

definition context_entries :: "document_loader \<Rightarrow> string \<Rightarrow> jvalue list" where
  "context_entries loader uri =
     (case loader uri of
        Inl e \<Rightarrow> []
      | Inr None \<Rightarrow> []
      | Inr (Some remoteDocument) \<Rightarrow>
         (case Document remoteDocument of
            JObj document \<Rightarrow>
              (case map_of document ''@context'' of
                 None \<Rightarrow> []
               | Some (JArr v) \<Rightarrow> v
               | Some ldContext \<Rightarrow> [ldContext])
          | _ \<Rightarrow> []))"

text \<open>The entries of all URIs of a list, in order; an empty URI is not looked up.\<close>

definition aggregate :: "document_loader \<Rightarrow> string list \<Rightarrow> jvalue list" where
  "aggregate loader uris = concat (map (context_entries loader) (filter (\<lambda>uri. uri \<noteq> '''') uris))"

text \<open>
  The events that reissue: a call of \<^verbatim>\<open>CreateCredential\<close>, and an HTTP request with
  method POST.
\<close>

fun is_reissuance :: "event \<Rightarrow> bool" where
  "is_reissuance (CreateCredential_call issuerDID credReq) = True"
| "is_reissuance (HTTP_Do req) = (http_method req = ''POST'')"
| "is_reissuance e = False"

text \<open>The run did not end in a panic.\<close>

fun returned :: "'a outcome \<Rightarrow> bool" where
  "returned (Returns r) = True"
| "returned (Panics msg) = False"

text \<open>The run returned an error and no credential.\<close>

fun is_error :: "(credential option \<times> err option) outcome \<Rightarrow> bool" where
  "is_error (Returns (None, Some e)) = True"
| "is_error r = False"

text \<open>
  An entry of the old subject is a changed index field: its key is not reserved, it is
  present in the new values, it resolves to slot 2 or 3, and its old value differs from
  the new one.
\<close>

definition index_field_changed ::
  "externals \<Rightarrow> jvalue \<Rightarrow> string \<Rightarrow> gomap \<Rightarrow> string \<times> jvalue \<Rightarrow> bool" where
  "index_field_changed ext credentialBytes typeStr newValues entry =
     (case entry of (k, v) \<Rightarrow>
        k \<noteq> ''type'' \<and> k \<noteq> ''id'' \<and>
        (case map_of newValues k of
           None \<Rightarrow> False
         | Some newValue \<Rightarrow>
            (case GetFieldSlotIndex ext k typeStr credentialBytes of
               Inl e \<Rightarrow> False
             | Inr slotIndex \<Rightarrow> (slotIndex = 2 \<or> slotIndex = 3) \<and> v \<noteq> newValue)))"

text \<open>
  Reading a trace from its start, no reissuing event comes before the index impact check
  has returned nil.
\<close>

fun reissues_after_verdict :: "event list \<Rightarrow> bool" where
  "reissues_after_verdict [] = True"
| "reissues_after_verdict (e # es) =
     (if e = IndexImpact_verdict None then True
      else \<not> is_reissuance e \<and> reissues_after_verdict es)"

text \<open>The credential the first call of \<^verbatim>\<open>GetClaimByID\<close> in \<^verbatim>\<open>Process\<close> hands back, if any.\<close>

definition fetched_credential ::
  "RefreshService \<Rightarrow> externals \<Rightarrow> string \<Rightarrow> string \<Rightarrow> credential option" where
  "fetched_credential rs ext issuer credID =
     (case issuerService rs of
        None \<Rightarrow> None
      | Some is \<Rightarrow>
         (case documentLoader rs of
            None \<Rightarrow> None
          | Some loader \<Rightarrow> fst (snd (GetClaimByID ext is [] issuer credID))))"

text \<open>The owner identifier of a credential: the entry \<^verbatim>\<open>id\<close> of its subject.\<close>

definition subject_id :: "credential \<Rightarrow> jvalue option" where
  "subject_id c = (case CredentialSubject c of None \<Rightarrow> None | Some subject \<Rightarrow> map_of subject ''id'')"

section \<open>An example deployment\<close>

definition example_subject :: gomap where
  "example_subject =
     [(''id'', JStr ''did:example:holder''),
      (''type'', JStr ''ExampleCredential''),
      (''birthday'', JNum 19960424)]"

definition example_credential :: credential where
  "example_credential =
     \<lparr>ID = ''urn:uuid:1'',
      Context = Some [''https://example.org/context''],
      Type = Some [''VerifiableCredential'', ''ExampleCredential''],
      Expiration = Some 1000,
      CredentialSubject = Some example_subject,
      CredentialStatus = JObj [(''revocationNonce'', JNum 5)],
      Issuer = ''did:example:issuer'',
      CredentialSchema_ID = ''https://example.org/schema.json'',
      RefreshService = None,
      DisplayMethod = None\<rparr>"

text \<open>
  A document loader that knows one context, a provider that moves the birthday by a day,
  an issuing authority reached through a client that answers every GET with status 200
  and every POST with status 201, and library functions that place \<^verbatim>\<open>birthday\<close> in
  slot 2 of a claim without merklized root.
\<close>

definition example_loader :: document_loader where
  "example_loader uri =
     (if uri = ''https://example.org/context''
      then Inr (Some \<lparr>Document = JObj [(''@context'', JArr [JStr ''https://example.org/vocab''])]\<rparr>)
      else Inl ''loading document failed'')"

definition example_provider :: flexible_http where
  "example_provider =
     \<lparr>Provide = (\<lambda>subject. Inr (Some [(''birthday'', JNum 19960425)])),
      TimeExpiration = 0\<rparr>"

definition example_issuer :: IssuerService where
  "example_issuer =
     \<lparr>supportedIssuers = [''*'' \<mapsto> ''http://issuer''],
      issuerBasicAuth = Some [''*'' \<mapsto> ''user:password''],
      client = (\<lambda>tr req.
        if http_method req = ''GET''
        then Inr \<lparr>StatusCode = 200, Body = Inr (http_url req)\<rparr>
        else Inr \<lparr>StatusCode = 201, Body = Inr ''created''\<rparr>)\<rparr>"

definition example_service :: RefreshService where
  "example_service =
     \<lparr>issuerService = Some example_issuer,
      documentLoader = Some example_loader,
      providers = (\<lambda>credentialType.
        if credentialType = ''urn:ExampleCredential'' then Inr example_provider
        else Inl ''unknown type'')\<rparr>"

definition example_externals :: "position \<Rightarrow> credential \<Rightarrow> externals" where
  "example_externals pos fetched =
     \<lparr>ParseClaim = (\<lambda>loader c. Inr \<lparr>GetMerklizedPosition = Inr pos\<rparr>),
      GetFieldSlotIndex = (\<lambda>k typeStr credentialBytes.
        if k = ''birthday'' then Inr 2
        else if k = ''nickname'' then Inl ''field not specified in serialization info''
        else if k = ''broken'' then Inl ''no serialization info''
        else Inr 0),
      TypeIDFromContext = (\<lambda>loader c subjectType. Inr (''urn:'' @ subjectType)),
      float64_to_uint64 = (\<lambda>n. word_of_int (trunc_zero n)),
      http_NewRequest = (\<lambda>method url. None),
      json_Marshal_request = (\<lambda>credReq. Inr ''{}''),
      json_Unmarshal_vc = (\<lambda>rawBody.
        if rawBody = ''http://issuer/v2/identities/did:example:issuer/credentials/urn:uuid:1''
        then Inr fetched
        else Inr (fetched\<lparr>ID := ''urn:uuid:2''\<rparr>)),
      json_Decode_id = (\<lambda>raw. Inr ''urn:uuid:2''),
      Sprintf_d = (\<lambda>n. ''?''),
      Sprintf_q = (\<lambda>s. s)\<rparr>"

text \<open>
  The same deployment with a credential whose birthday is a JSON array, year, month and
  day, and a provider that answers with an array.
\<close>

definition array_subject :: gomap where
  "array_subject =
     [(''id'', JStr ''did:example:holder''),
      (''type'', JStr ''ExampleCredential''),
      (''birthday'', JArr [JNum 1996, JNum 4, JNum 24])]"

definition array_credential :: credential where
  "array_credential = example_credential\<lparr>CredentialSubject := Some array_subject\<rparr>"

definition array_service :: RefreshService where
  "array_service =
     example_service\<lparr>providers := (\<lambda>credentialType.
       Inr \<lparr>Provide = (\<lambda>subject. Inr (Some [(''birthday'', JArr [JNum 1996, JNum 4, JNum 25])])),
            TimeExpiration = 0\<rparr>)\<rparr>"

text \<open>
  The same deployment with a provider that answers with another owner identifier, and
  with a credential that carries no context list.
\<close>

definition id_service :: RefreshService where
  "id_service =
     example_service\<lparr>providers := (\<lambda>credentialType.
       Inr \<lparr>Provide = (\<lambda>subject. Inr (Some [(''id'', JStr ''did:example:other'')])),
            TimeExpiration = 0\<rparr>)\<rparr>"

definition bare_credential :: credential where
  "bare_credential = example_credential\<lparr>Context := None\<rparr>"

text \<open>
  The same library functions with a conversion that saturates: where the integer part of
  the number is no uint64, a negative number gives 0 and any other the greatest uint64.
\<close>

definition saturating_externals :: externals where
  "saturating_externals =
     (example_externals MerklizedRootPositionNone example_credential)
       \<lparr>float64_to_uint64 := (\<lambda>n. if n < 0 then 0 else - 1)\<rparr>"

section \<open>Properties\<close>

subsection \<open>Eligibility\<close>

lemma TrimSpace_example: "TrimSpace ''did:example:holder'' = ''did:example:holder''"
  by code_simp

text \<open>
  C7, amended. For every credential, \<^verbatim>\<open>isUpdatable\<close> fails exactly when the
  expiration is absent, or lies strictly after the current time, or the entry \<^verbatim>\<open>id\<close>
  of the subject is missing, null, not a string, or blank after trimming white space. In
  particular it succeeds for every credential whose expiration is not after the current
  time and whose subject id is a string that is not blank.
\<close>

theorem isUpdatable_fails_iff:
  "((isUpdatable now (Some c) \<noteq> None) =
      (Expiration c = None \<or> expires_after now c \<or> subject_id_invalid c))
   \<and> (Expiration c = Some t \<and> t \<le> now \<and> CredentialSubject c = Some subject
        \<and> map_of subject ''id'' = Some (JStr s) \<and> TrimSpace s \<noteq> ''''
       \<longrightarrow> isUpdatable now (Some c) = None)"
  by (auto simp: isUpdatable_def expires_after_def subject_id_invalid_def
           split: option.splits jvalue.splits)

theorem isUpdatable_fails_iff_witness:
  "isUpdatable 2000 (Some example_credential) = None
   \<and> isUpdatable 500 (Some example_credential) \<noteq> None
   \<and> expires_after 500 example_credential"
proof -
  have e: "Expiration example_credential = Some 1000"
    and s: "CredentialSubject example_credential = Some example_subject"
    and i: "map_of example_subject ''id'' = Some (JStr ''did:example:holder'')"
    by (simp_all add: example_credential_def example_subject_def)
  have t: "TrimSpace ''did:example:holder'' \<noteq> ''''"
    by (simp add: TrimSpace_example)
  have a: "expires_after 500 example_credential"
    by (simp add: expires_after_def e)
  have "isUpdatable 2000 (Some example_credential) = None"
    using isUpdatable_fails_iff [of 2000 example_credential 1000 example_subject
        "''did:example:holder''"] e s i t
    by simp
  moreover have "isUpdatable 500 (Some example_credential) \<noteq> None"
    using isUpdatable_fails_iff [of 500 example_credential] a by simp
  ultimately show ?thesis using a by simp
qed

text \<open>
  C7 as stated fails: a credential without an expiration is refused, although its
  expiration is not after the current time and its subject id is a string that is not
  blank.
\<close>

theorem isUpdatable_nil_expiration_counterexample:
  "isUpdatable 2000 (Some (example_credential\<lparr>Expiration := None\<rparr>))
     = Some ''credential expiration is nil''
   \<and> \<not> expires_after 2000 (example_credential\<lparr>Expiration := None\<rparr>)
   \<and> \<not> subject_id_invalid (example_credential\<lparr>Expiration := None\<rparr>)"
  by (simp add: isUpdatable_def expires_after_def subject_id_invalid_def
        example_credential_def example_subject_def TrimSpace_example)

subsection \<open>Revocation nonce\<close>

text \<open>
  C10, amended. For every credential whose status is a map with a numeric
  \<^verbatim>\<open>revocationNonce\<close> \<open>n\<close>, whatever the number, \<^verbatim>\<open>extractRevocationNonce\<close> reports no
  error and returns the conversion \<^verbatim>\<open>uint64(n)\<close>. The fraction is cut off wherever the
  integer part is a uint64: a number from 0 up to \<open>2\<^sup>6\<^sup>4\<close> gives its floor, a number
  between -1 and 0 gives 0. For a number from -1 downwards the result is the one the
  implementation's conversion gives, whatever that is.
\<close>

theorem extractRevocationNonce_converts:
  "CredentialStatus c = JObj status \<and> map_of status ''revocationNonce'' = Some (JNum n)
   \<longrightarrow> extractRevocationNonce ext (Some c) = Inr (uint64 ext n)
       \<and> (0 \<le> n \<and> n < 2 ^ 64 \<longrightarrow> uint64 ext n = word_of_int \<lfloor>n\<rfloor>)
       \<and> (- 1 < n \<and> n < 0 \<longrightarrow> uint64 ext n = 0)
       \<and> (n \<le> - 1 \<longrightarrow> uint64 ext n = float64_to_uint64 ext n)"
proof (intro impI conjI)
  assume a: "CredentialStatus c = JObj status \<and> map_of status ''revocationNonce'' = Some (JNum n)"
  then show "extractRevocationNonce ext (Some c) = Inr (uint64 ext n)"
    by (simp add: extractRevocationNonce_def)
next
  assume "0 \<le> n \<and> n < 2 ^ 64"
  then have "0 \<le> \<lfloor>n\<rfloor>" and "\<lfloor>n\<rfloor> < 2 ^ 64"
    by (simp_all add: floor_less_iff)
  then show "uint64 ext n = word_of_int \<lfloor>n\<rfloor>"
    using \<open>0 \<le> n \<and> n < 2 ^ 64\<close> by (simp add: uint64_def trunc_zero_def)
next
  assume b: "- 1 < n \<and> n < 0"
  then have "\<lceil>n\<rceil> = 0"
    by (simp add: ceiling_eq_iff)
  with b show "uint64 ext n = 0"
    by (simp add: uint64_def trunc_zero_def)
next
  assume "n \<le> - 1"
  then have "\<lceil>n\<rceil> \<le> - 1"
    by (simp add: ceiling_le_iff)
  with \<open>n \<le> - 1\<close> show "uint64 ext n = float64_to_uint64 ext n"
    by (simp add: uint64_def trunc_zero_def)
qed

theorem extractRevocationNonce_converts_witness:
  "extractRevocationNonce saturating_externals
     (Some (example_credential\<lparr>CredentialStatus := JObj [(''revocationNonce'', JNum (5 / 2))]\<rparr>))
     = Inr 2
   \<and> extractRevocationNonce saturating_externals
     (Some (example_credential\<lparr>CredentialStatus := JObj [(''revocationNonce'', JNum (- 1 / 2))]\<rparr>))
     = Inr 0"
proof -
  let ?c = "\<lambda>n. example_credential\<lparr>CredentialStatus := JObj [(''revocationNonce'', JNum n)]\<rparr>"
  have "extractRevocationNonce saturating_externals (Some (?c (5 / 2)))
          = Inr (word_of_int \<lfloor>5 / 2 :: rat\<rfloor>)"
    using extractRevocationNonce_converts
      [of "?c (5 / 2)" "[(''revocationNonce'', JNum (5 / 2))]" "5 / 2" saturating_externals]
    by simp
  moreover
  have "extractRevocationNonce saturating_externals (Some (?c (- 1 / 2))) = Inr 0"
    using extractRevocationNonce_converts
      [of "?c (- 1 / 2)" "[(''revocationNonce'', JNum (- 1 / 2))]" "- 1 / 2" saturating_externals]
    by simp
  moreover have "\<lfloor>5 / 2 :: rat\<rfloor> = 2"
    by code_simp
  ultimately show ?thesis by simp
qed

text \<open>
  C10 as stated fails: that a negative number wraps around is not something the code
  does. The conversion of a number that is no uint64 is left to the implementation, and
  with a conversion that saturates the nonce -2.5 is returned as 0, not as
  18446744073709551614, the two's complement of -2.
\<close>

theorem extractRevocationNonce_negative_counterexample:
  "extractRevocationNonce saturating_externals
     (Some (example_credential\<lparr>CredentialStatus := JObj [(''revocationNonce'', JNum (- 5 / 2))]\<rparr>))
     = Inr 0
   \<and> (word_of_int (trunc_zero (- 5 / 2)) :: 64 word) = 18446744073709551614"
proof -
  have t: "trunc_zero (- 5 / 2) = - 2" "trunc_zero (- (5 / 2)) = - 2"
    by code_simp+
  show ?thesis
    by (simp add: extractRevocationNonce_def uint64_def t saturating_externals_def
          example_externals_def)
qed

subsection \<open>Index impact\<close>

text \<open>
  C3. For a credential whose claim parses with merklized root position Index,
  \<^verbatim>\<open>isUpdatedIndexSlots\<close> returns nil, the verdict "updated", for all old and new
  values, an empty difference included; with position Value it returns the error
  \<^verbatim>\<open>errIndexSlotsNotUpdated\<close> for all old and new values. In both cases the credential
  is left as it was.
\<close>

theorem isUpdatedIndexSlots_Index_Value:
  "ParseClaim ext (documentLoader rs) c = Inr claim \<Longrightarrow>
   (GetMerklizedPosition claim = Inr MerklizedRootPositionIndex
      \<longrightarrow> isUpdatedIndexSlots rs ext (Some c) oldValues newValues = (Some c, Returns None))
   \<and> (GetMerklizedPosition claim = Inr MerklizedRootPositionValue
      \<longrightarrow> isUpdatedIndexSlots rs ext (Some c) oldValues newValues
            = (Some c, Returns (Some errIndexSlotsNotUpdated)))"
  by (simp add: isUpdatedIndexSlots_def)

theorem isUpdatedIndexSlots_Index_Value_witness:
  "isUpdatedIndexSlots example_service
      (example_externals MerklizedRootPositionIndex example_credential)
      (Some example_credential) example_subject example_subject
     = (Some example_credential, Returns None)
   \<and> isUpdatedIndexSlots example_service
      (example_externals MerklizedRootPositionValue example_credential)
      (Some example_credential) example_subject [(''birthday'', JNum 1)]
     = (Some example_credential, Returns (Some ''no index fields were updated''))"
proof -
  have i: "ParseClaim (example_externals MerklizedRootPositionIndex example_credential)
             (documentLoader example_service) example_credential
           = Inr \<lparr>GetMerklizedPosition = Inr MerklizedRootPositionIndex\<rparr>"
    by (simp add: example_externals_def)
  have v: "ParseClaim (example_externals MerklizedRootPositionValue example_credential)
             (documentLoader example_service) example_credential
           = Inr \<lparr>GetMerklizedPosition = Inr MerklizedRootPositionValue\<rparr>"
    by (simp add: example_externals_def)
  show ?thesis
    using isUpdatedIndexSlots_Index_Value [OF i, of example_subject example_subject]
      isUpdatedIndexSlots_Index_Value [OF v, of example_subject "[(''birthday'', JNum 1)]"]
    by (simp add: errIndexSlotsNotUpdated_def)
qed

subsection \<open>Context aggregation\<close>

lemma append_slice_assoc:
  "append_slice (append_slice res xs) ys = append_slice res (xs @ ys)"
  by (simp add: append_slice_def split: option.splits)

lemma append_slice_Nil: "append_slice res [] = res"
  by (simp add: append_slice_def split: option.splits)

lemma loadContexts_loop_aggregate:
  "loadContexts_loop loader res uris = append_slice res (aggregate loader uris)"
proof (induction uris arbitrary: res)
  case Nil
  show ?case by (simp add: aggregate_def append_slice_Nil)
next
  case (Cons uri uris)
  have step: "aggregate loader (uri # uris) =
      (if uri = '''' then [] else context_entries loader uri) @ aggregate loader uris"
    by (simp add: aggregate_def)
  show ?case
    unfolding step
    by (simp add: Cons.IH context_entries_def append_slice_assoc append_slice_Nil
          split: sum.splits option.splits jvalue.splits)
qed

text \<open>
  C8. With a document loader in place, \<^verbatim>\<open>loadContexts\<close> never fails: for the empty
  (or nil) list of URIs it returns the document with the empty \<^verbatim>\<open>@context\<close> array, and
  for a list that is not empty it returns, whatever fails to resolve, the entries of the
  URIs that do resolve, in order, array-valued entries flattened. The \<^verbatim>\<open>@context\<close> member
  of the result is \<^verbatim>\<open>null\<close> when there is no entry at all.
\<close>

theorem loadContexts_best_effort:
  "documentLoader rs = Some loader \<Longrightarrow>
   loadContexts rs None = Inr (JObj [(''@context'', JArr [])])
   \<and> loadContexts rs (Some []) = Inr (JObj [(''@context'', JArr [])])
   \<and> (uris \<noteq> [] \<longrightarrow>
        loadContexts rs (Some uris) =
          Inr (JObj [(''@context'',
                 if aggregate loader uris = [] then JNull else JArr (aggregate loader uris))]))"
  by (simp add: loadContexts_def loadContexts_loop_aggregate marshal_uploadedContexts_def
        append_slice_def)

theorem loadContexts_best_effort_witness:
  "loadContexts example_service (Some []) = Inr (JObj [(''@context'', JArr [])])
   \<and> loadContexts example_service
        (Some [''https://example.org/missing'', ''https://example.org/context''])
      = Inr (JObj [(''@context'', JArr [JStr ''https://example.org/vocab''])])
   \<and> loadContexts example_service (Some [''https://example.org/missing''])
      = Inr (JObj [(''@context'', JNull)])"
proof -
  have l: "documentLoader example_service = Some example_loader"
    by (simp add: example_service_def)
  have a: "aggregate example_loader
             [''https://example.org/missing'', ''https://example.org/context'']
           = [JStr ''https://example.org/vocab'']"
    by (simp add: aggregate_def context_entries_def example_loader_def)
  have b: "aggregate example_loader [''https://example.org/missing''] = []"
    by (simp add: aggregate_def context_entries_def example_loader_def)
  show ?thesis
    using loadContexts_best_effort
        [OF l, of "[''https://example.org/missing'', ''https://example.org/context'']"]
      loadContexts_best_effort [OF l, of "[''https://example.org/missing'']"]
    by (simp add: a b)
qed

lemma index_loop_append:
  "index_loop ext credentialBytes oldValues newValues (xs @ ys) =
     (case index_loop ext credentialBytes oldValues newValues xs of
        Returns None \<Rightarrow> index_loop ext credentialBytes oldValues newValues ys
      | r \<Rightarrow> r)"
proof (induction xs)
  case Nil
  show ?case by simp
next
  case (Cons x xs)
  obtain k v where x: "x = (k, v)" by (cases x)
  show ?case
    unfolding x
    by (simp add: Cons.IH
          split: option.splits jvalue.splits sum.splits outcome.splits bool.splits)
qed

text \<open>
  C5. In the analysis for merklized root position None, at the field the loop has
  reached: if the slot index resolution fails with an error whose text contains "not
  specified in serialization info", \<^verbatim>\<open>isUpdatedIndexSlots\<close> returns nil at once, the
  verdict "updated", whatever fields remain; if it fails with any other error, that error
  is the result.
\<close>

theorem isUpdatedIndexSlots_resolution_error:
  assumes "ParseClaim ext (documentLoader rs) c = Inr claim"
    and "GetMerklizedPosition claim = Inr MerklizedRootPositionNone"
    and "loadContexts rs (Some (case Context c of None \<Rightarrow> [] | Some uris \<Rightarrow> uris))
           = Inr credentialBytes"
    and "oldValues = visited @ (k, v) # rest"
    and "index_loop ext credentialBytes oldValues newValues visited = Returns None"
    and "k \<noteq> ''type''" and "k \<noteq> ''id''"
    and "map_of oldValues ''type'' = Some (JStr typeStr)"
    and "GetFieldSlotIndex ext k typeStr credentialBytes = Inl e"
  shows "snd (isUpdatedIndexSlots rs ext (Some c) oldValues newValues) =
           Returns (if Contains e ''not specified in serialization info'' then None else Some e)"
proof -
  have ctx: "Context (if Context c = None then c\<lparr>Context := Some []\<rparr> else c)
             = Some (case Context c of None \<Rightarrow> [] | Some uris \<Rightarrow> uris)"
    by (simp split: option.splits)
  have here: "index_loop ext credentialBytes oldValues newValues ((k, v) # rest) =
           Returns (Some (if Contains e ''not specified in serialization info''
                          then None else Some e))"
    using assms(6-9) by simp
  have "index_loop ext credentialBytes oldValues newValues (visited @ (k, v) # rest) =
           Returns (Some (if Contains e ''not specified in serialization info''
                          then None else Some e))"
    unfolding index_loop_append assms(5) here by simp
  then have loop: "index_loop ext credentialBytes oldValues newValues oldValues =
           Returns (Some (if Contains e ''not specified in serialization info''
                          then None else Some e))"
    using assms(4) by simp
  show ?thesis
    unfolding isUpdatedIndexSlots_def
    by (simp add: assms(1,2,3) ctx loop Let_def del: index_loop.simps)
qed

lemma example_context_document:
  "loadContexts example_service (Some [''https://example.org/context''])
     = Inr (JObj [(''@context'', JArr [JStr ''https://example.org/vocab''])])"
  by (simp add: loadContexts_def example_service_def example_loader_def
        marshal_uploadedContexts_def append_slice_def)

theorem isUpdatedIndexSlots_resolution_error_witness:
  "snd (isUpdatedIndexSlots example_service
          (example_externals MerklizedRootPositionNone example_credential)
          (Some example_credential)
          (example_subject @ [(''nickname'', JStr ''Bob''), (''broken'', JNull)]) [])
     = Returns None
   \<and> snd (isUpdatedIndexSlots example_service
          (example_externals MerklizedRootPositionNone example_credential)
          (Some example_credential)
          (example_subject @ [(''broken'', JNull), (''nickname'', JStr ''Bob'')]) [])
     = Returns (Some ''no serialization info'')"
proof -
  let ?ext = "example_externals MerklizedRootPositionNone example_credential"
  let ?doc = "JObj [(''@context'', JArr [JStr ''https://example.org/vocab''])]"
  let ?old1 = "example_subject @ [(''nickname'', JStr ''Bob''), (''broken'', JNull)]"
  let ?old2 = "example_subject @ [(''broken'', JNull), (''nickname'', JStr ''Bob'')]"
  have p: "ParseClaim ?ext (documentLoader example_service) example_credential
           = Inr \<lparr>GetMerklizedPosition = Inr MerklizedRootPositionNone\<rparr>"
    by (simp add: example_externals_def)
  have g: "GetMerklizedPosition \<lparr>GetMerklizedPosition = Inr MerklizedRootPositionNone\<rparr>
           = Inr MerklizedRootPositionNone"
    by simp
  have l: "loadContexts example_service
             (Some (case Context example_credential of None \<Rightarrow> [] | Some uris \<Rightarrow> uris))
           = Inr ?doc"
    using example_context_document by (simp add: example_credential_def)
  have o1: "?old1 = example_subject @ (''nickname'', JStr ''Bob'') # [(''broken'', JNull)]"
    and o2: "?old2 = example_subject @ (''broken'', JNull) # [(''nickname'', JStr ''Bob'')]"
    by simp_all
  have v1: "index_loop ?ext ?doc ?old1 [] example_subject = Returns None"
    and v2: "index_loop ?ext ?doc ?old2 [] example_subject = Returns None"
    by (simp_all add: example_subject_def example_externals_def)
  have t1: "map_of ?old1 ''type'' = Some (JStr ''ExampleCredential'')"
    and t2: "map_of ?old2 ''type'' = Some (JStr ''ExampleCredential'')"
    by (simp_all add: example_subject_def)
  have e1: "GetFieldSlotIndex ?ext ''nickname'' ''ExampleCredential'' ?doc
            = Inl ''field not specified in serialization info''"
    and e2: "GetFieldSlotIndex ?ext ''broken'' ''ExampleCredential'' ?doc
            = Inl ''no serialization info''"
    by (simp_all add: example_externals_def)
  have c1: "Contains ''field not specified in serialization info''
              ''not specified in serialization info''"
    and c2: "\<not> Contains ''no serialization info'' ''not specified in serialization info''"
    by (simp_all add: Contains_def sublist_code)
  show ?thesis
    using isUpdatedIndexSlots_resolution_error [OF p g l o1 v1 _ _ t1 e1]
      isUpdatedIndexSlots_resolution_error [OF p g l o2 v2 _ _ t2 e2] c1 c2
    by simp
qed

lemma go_neq_comparable: "comparable v \<Longrightarrow> go_neq v newValue = Returns (v \<noteq> newValue)"
  by (cases v; cases newValue) simp_all

lemma index_loop_resolving:
  assumes "map_of oldValues ''type'' = Some (JStr typeStr)"
    and "\<forall>(k, v) \<in> set entries. comparable v \<and>
           (k \<noteq> ''type'' \<and> k \<noteq> ''id''
              \<longrightarrow> (\<exists>i. GetFieldSlotIndex ext k typeStr credentialBytes = Inr i))"
  shows "index_loop ext credentialBytes oldValues newValues entries =
           Returns (if list_ex (index_field_changed ext credentialBytes typeStr newValues) entries
                    then Some None else None)"
  using assms(2)
proof (induction entries)
  case Nil
  show ?case by simp
next
  case (Cons x entries)
  obtain k v where x: "x = (k, v)" by (cases x)
  from Cons.prems x have cmp: "comparable v"
    and res: "k \<noteq> ''type'' \<and> k \<noteq> ''id''
              \<longrightarrow> (\<exists>i. GetFieldSlotIndex ext k typeStr credentialBytes = Inr i)"
    and rest: "\<forall>(k, v) \<in> set entries. comparable v \<and>
           (k \<noteq> ''type'' \<and> k \<noteq> ''id''
              \<longrightarrow> (\<exists>i. GetFieldSlotIndex ext k typeStr credentialBytes = Inr i))"
    by auto
  note IH = Cons.IH [OF rest]
  show ?case
  proof (cases "k = ''type'' \<or> k = ''id''")
    case True
    then have "\<not> index_field_changed ext credentialBytes typeStr newValues (k, v)"
      by (auto simp: index_field_changed_def)
    with True show ?thesis
      unfolding x by (auto simp: IH)
  next
    case False
    with res obtain i where i: "GetFieldSlotIndex ext k typeStr credentialBytes = Inr i"
      by auto
    have head: "index_field_changed ext credentialBytes typeStr newValues (k, v) =
        (case map_of newValues k of
           None \<Rightarrow> False
         | Some newValue \<Rightarrow> (i = 2 \<or> i = 3) \<and> v \<noteq> newValue)"
      using False by (simp add: index_field_changed_def i split: option.splits)
    show ?thesis
      unfolding x using False
      by (auto simp: IH assms(1) i head go_neq_comparable [OF cmp]
            split: option.splits bool.splits)
  qed
qed

text \<open>
  Where every value of the old subject is comparable, the changed index fields decide
  the analysis for merklized root position None: if the old subject has a string type
  and all its other fields resolve to a slot index, the verdict is "updated" exactly when
  some field is a changed index field, and \<^verbatim>\<open>errIndexSlotsNotUpdated\<close> otherwise.
\<close>

lemma isUpdatedIndexSlots_None_comparable:
  assumes "ParseClaim ext (documentLoader rs) c = Inr claim"
    and "GetMerklizedPosition claim = Inr MerklizedRootPositionNone"
    and "loadContexts rs (Some (case Context c of None \<Rightarrow> [] | Some uris \<Rightarrow> uris))
           = Inr credentialBytes"
    and "map_of oldValues ''type'' = Some (JStr typeStr)"
    and "\<forall>(k, v) \<in> set oldValues. comparable v \<and>
           (k \<noteq> ''type'' \<and> k \<noteq> ''id''
              \<longrightarrow> (\<exists>i. GetFieldSlotIndex ext k typeStr credentialBytes = Inr i))"
  shows "snd (isUpdatedIndexSlots rs ext (Some c) oldValues newValues) =
           Returns (if list_ex (index_field_changed ext credentialBytes typeStr newValues) oldValues
                    then None else Some errIndexSlotsNotUpdated)"
proof -
  have ctx: "Context (if Context c = None then c\<lparr>Context := Some []\<rparr> else c)
             = Some (case Context c of None \<Rightarrow> [] | Some uris \<Rightarrow> uris)"
    by (simp split: option.splits)
  show ?thesis
    unfolding isUpdatedIndexSlots_def
    by (simp add: assms(1,2,3) ctx Let_def index_loop_resolving [OF assms(4,5)]
          del: index_loop.simps)
qed

text \<open>
  C4 does not hold of the code. The old subject below has a string type and its one other
  field, \<^verbatim>\<open>birthday\<close>, resolves to slot 2, is present in the new values and differs
  from the new value; C4 promises the verdict "updated". Both values are arrays, so the
  comparison at line 324 panics and \<^verbatim>\<open>isUpdatedIndexSlots\<close> returns nothing.
\<close>

theorem isUpdatedIndexSlots_array_panics:
  "isUpdatedIndexSlots example_service
      (example_externals MerklizedRootPositionNone array_credential)
      (Some array_credential) array_subject
      [(''birthday'', JArr [JNum 1996, JNum 4, JNum 25])]
     = (Some array_credential,
        Panics ''runtime error: comparing uncomparable type []interface {}'')
   \<and> list_ex (index_field_changed
        (example_externals MerklizedRootPositionNone array_credential)
        (JObj [(''@context'', JArr [JStr ''https://example.org/vocab''])])
        ''ExampleCredential'' [(''birthday'', JArr [JNum 1996, JNum 4, JNum 25])])
      array_subject"
proof -
  have "Context array_credential = Some [''https://example.org/context'']"
    by (simp add: array_credential_def example_credential_def)
  then show ?thesis
    by (simp add: isUpdatedIndexSlots_def example_context_document Let_def
          index_field_changed_def array_subject_def example_externals_def)
qed

subsection \<open>The pipeline\<close>

lemmas pipeline_defs =
  Process_def Process_body_def Process_reissue_def Process_submit_def fails_def
  GetClaimByID_def CreateCredential_def getIssuerURL_def setBasicAuth_def split_namepass_def
  isUpdatable_def checkOwnerShip_def isUpdatedIndexSlots_def extractRevocationNonce_def
  uint64_def trunc_zero_def loadContexts_def marshal_uploadedContexts_def append_slice_def
  errIndexSlotsNotUpdated_def ErrCredentialNotUpdatable_def Wrap_def Let_def

lemmas deployment_defs =
  example_service_def example_externals_def example_credential_def example_subject_def
  example_issuer_def example_loader_def example_provider_def

lemma GetClaimByID_one_result:
  "snd (GetClaimByID ext is tr issuerDID claimID) = (fetched, e) \<Longrightarrow>
   (fetched = None) = (e \<noteq> None)"
  by (auto simp: GetClaimByID_def Let_def split: sum.splits option.splits if_splits)

lemma GetClaimByID_trace:
  "\<exists>evs. fst (GetClaimByID ext is tr issuerDID claimID) = tr @ evs
         \<and> (\<forall>e \<in> set evs. \<not> is_reissuance e \<and> e \<noteq> IndexImpact_verdict None)"
  by (auto simp: GetClaimByID_def Let_def split: sum.splits option.splits if_splits)

lemma CreateCredential_trace:
  "\<exists>evs. fst (CreateCredential ext is tr issuerDID credReq) = tr @ evs"
  by (auto simp: CreateCredential_def Let_def split: sum.splits option.splits if_splits)

lemma reissues_after_verdict_append:
  "\<forall>e \<in> set tr. \<not> is_reissuance e \<and> e \<noteq> IndexImpact_verdict None \<Longrightarrow>
   reissues_after_verdict (tr @ es) = reissues_after_verdict es"
  by (induction tr) auto

lemma reissues_after_verdict_clean:
  "\<forall>e \<in> set tr. \<not> is_reissuance e \<and> e \<noteq> IndexImpact_verdict None \<Longrightarrow>
   reissues_after_verdict tr"
  using reissues_after_verdict_append [of tr "[]"] by simp

lemma reissues_after_verdict_split:
  "reissues_after_verdict tr \<Longrightarrow> tr = pre @ e # post \<Longrightarrow> is_reissuance e \<Longrightarrow>
   IndexImpact_verdict None \<in> set pre"
proof (induction tr arbitrary: pre)
  case Nil
  then show ?case by simp
next
  case (Cons a tr)
  show ?case
  proof (cases pre)
    case Nil
    with Cons.prems show ?thesis by (auto split: if_splits)
  next
    case (Cons b pre')
    with Cons.prems Cons.IH [of pre'] show ?thesis by (auto split: if_splits)
  qed
qed

lemma GetClaimByID_clean:
  "GetClaimByID ext is [] issuerDID claimID = (tr, r) \<Longrightarrow>
   \<forall>e \<in> set tr. \<not> is_reissuance e \<and> e \<noteq> IndexImpact_verdict None"
  using GetClaimByID_trace [of ext "is" "[]" issuerDID claimID] by auto

lemma fails_simps:
  "memory (fails m tr e) = m" "trace (fails m tr e) = tr"
  "outcome (fails m tr e) = Returns (None, Some e)"
  by (simp_all add: fails_def)

lemma GetClaimByID_prefix:
  "GetClaimByID ext is tr issuerDID claimID = (tr', r) \<Longrightarrow> prefix tr tr'"
  using GetClaimByID_trace [of ext "is" tr issuerDID claimID] by auto

lemma CreateCredential_prefix:
  "CreateCredential ext is tr issuerDID credReq = (tr', r) \<Longrightarrow> prefix tr tr'"
  using CreateCredential_trace [of ext "is" tr issuerDID credReq] by auto

lemma Process_submit_trace:
  "prefix tr (trace (Process_submit ext is now tr issuer c subjectType te))"
  unfolding Process_submit_def Let_def
  by (auto simp: fails_simps split: sum.splits prod.splits option.splits
        dest!: CreateCredential_prefix GetClaimByID_prefix intro: prefix_order.trans)

lemma Process_submit_memory:
  "memory (Process_submit ext is now tr issuer c subjectType te) = Some c"
  by (simp add: Process_submit_def Let_def fails_simps
        split: sum.splits prod.splits option.splits)

lemma Process_submit_result:
  "\<exists>fetched e. outcome (Process_submit ext is now tr issuer c subjectType te)
       = Returns (fetched, e) \<and> (fetched = None) = (e \<noteq> None)"
proof -
  have g: "\<And>tr' claimID tr'' fetched e.
      GetClaimByID ext is tr' issuer claimID = (tr'', (fetched, e)) \<Longrightarrow>
      (fetched = None) = (e \<noteq> None)"
    using GetClaimByID_one_result [of ext "is" _ issuer] by (metis snd_conv)
  show ?thesis
    unfolding Process_submit_def Let_def
    by (auto simp: fails_simps split: sum.splits prod.splits option.splits dest: g)
qed

lemma isUpdatedIndexSlots_memory:
  "isUpdatedIndexSlots rs ext (Some c) oldValues newValues = (m, r) \<Longrightarrow>
   m = Some c \<or> (Context c = None \<and> m = Some (c\<lparr>Context := Some []\<rparr>))"
  by (auto simp: isUpdatedIndexSlots_def Let_def
        split: sum.splits option.splits position.splits outcome.splits if_splits)

lemma after_verdict_prefix:
  assumes "\<forall>e \<in> set tr. \<not> is_reissuance e \<and> e \<noteq> IndexImpact_verdict None"
    and "prefix (tr @ [IndexImpact_verdict None]) t"
  shows "reissues_after_verdict t" and "IndexImpact_verdict None \<in> set t"
proof -
  from assms(2) obtain es where t: "t = tr @ IndexImpact_verdict None # es"
    by (auto simp: prefix_def)
  show "reissues_after_verdict t"
    unfolding t using reissues_after_verdict_append [OF assms(1)] by simp
  show "IndexImpact_verdict None \<in> set t"
    unfolding t by simp
qed

lemma Process_reissue_order:
  assumes "\<forall>e \<in> set tr. \<not> is_reissuance e \<and> e \<noteq> IndexImpact_verdict None"
  shows "reissues_after_verdict
           (trace (Process_reissue rs ext is now tr issuer c subject subjectType te upd))"
  unfolding Process_reissue_def
  using assms after_verdict_prefix(1) [OF assms Process_submit_trace]
  by (auto simp: fails_simps reissues_after_verdict_clean reissues_after_verdict_append
        split: prod.splits outcome.splits option.splits)

lemma Process_reissue_abort:
  assumes "\<forall>e \<in> set tr. \<not> is_reissuance e \<and> e \<noteq> IndexImpact_verdict None"
    and "IndexImpact_verdict None \<notin>
           set (trace (Process_reissue rs ext is now tr issuer c subject subjectType te upd))"
    and "returned (outcome (Process_reissue rs ext is now tr issuer c subject subjectType te upd))"
  shows "is_error (outcome (Process_reissue rs ext is now tr issuer c subject subjectType te upd))"
  using assms(2,3) after_verdict_prefix(2) [OF assms(1) Process_submit_trace]
  unfolding Process_reissue_def
  by (auto simp: fails_simps split: prod.splits outcome.splits option.splits)

lemma Process_reissue_memory:
  assumes "memory (Process_reissue rs ext is now tr issuer c subject subjectType te upd) = Some m"
  shows "m = c \<or> m = c\<lparr>Context := Some []\<rparr>
         \<or> m = c\<lparr>CredentialSubject := Some (merge_subject subject upd)\<rparr>
         \<or> m = c\<lparr>Context := Some [], CredentialSubject := Some (merge_subject subject upd)\<rparr>"
    and "Context m \<noteq> Context c \<longrightarrow> Context c = None"
  using assms unfolding Process_reissue_def
  by (auto simp: fails_simps Process_submit_memory
        split: prod.splits outcome.splits option.splits dest!: isUpdatedIndexSlots_memory)

lemma Process_submit_one_result:
  assumes "outcome (Process_submit ext is now tr issuer c subjectType te) = Returns (fetched, e)"
  shows "(fetched = None) = (e \<noteq> None)"
  using assms Process_submit_result [of ext "is" now tr issuer c subjectType te] by auto

lemma Process_reissue_result:
  assumes "outcome (Process_reissue rs ext is now tr issuer c subject subjectType te upd)
             = Returns (fetched, e)"
  shows "(fetched = None) = (e \<noteq> None)"
  using assms unfolding Process_reissue_def
  by (auto simp: fails_simps split: prod.splits outcome.splits option.splits
        dest: Process_submit_one_result)

text \<open>
  Every run of the body of \<^verbatim>\<open>Process\<close> either fails before the index impact check,
  with the fetched credential untouched and nothing but fetching in its trace, or it
  reaches the check with the fetched credential and its subject.
\<close>

lemma Process_body_cases [case_names early late]:
  assumes early: "\<And>m tr e.
      \<forall>ev \<in> set tr. \<not> is_reissuance ev \<and> ev \<noteq> IndexImpact_verdict None \<Longrightarrow>
      m = None \<or> m = fetched_credential rs ext issuer credID \<Longrightarrow>
      P (fails m tr e)"
    and late: "\<And>is tr c subject subjectType te upd.
      \<forall>ev \<in> set tr. \<not> is_reissuance ev \<and> ev \<noteq> IndexImpact_verdict None \<Longrightarrow>
      fetched_credential rs ext issuer credID = Some c \<Longrightarrow>
      CredentialSubject c = Some subject \<Longrightarrow>
      P (Process_reissue rs ext is now' tr issuer c subject subjectType te upd)"
  shows "P (Process_body rs ext now now' issuer owner credID)"
proof (cases "issuerService rs")
  case None
  then show ?thesis
    by (simp add: Process_body_def early)
next
  case svc: (Some isv)
  show ?thesis
  proof (cases "documentLoader rs")
    case None
    with svc show ?thesis
      by (simp add: Process_body_def early)
  next
    case loader: (Some loader)
    obtain tr fetched er where g: "GetClaimByID ext isv [] issuer credID = (tr, (fetched, er))"
      by (cases "GetClaimByID ext isv [] issuer credID") auto
    have clean: "\<forall>ev \<in> set tr. \<not> is_reissuance ev \<and> ev \<noteq> IndexImpact_verdict None"
      using GetClaimByID_clean [OF g] .
    have f: "fetched_credential rs ext issuer credID = fetched"
      by (simp add: fetched_credential_def svc loader g)
    note E = early [OF clean]
    show ?thesis
    proof (cases er)
      case (Some e)
      with svc loader g show ?thesis
        by (simp add: Process_body_def E f)
    next
      case None
      show ?thesis
      proof (cases fetched)
        case None
        with svc loader g \<open>er = None\<close> show ?thesis
          by (simp add: Process_body_def E)
      next
        case (Some c)
        have m: "Some c = fetched_credential rs ext issuer credID"
          using f Some by simp
        note E' = E [of "Some c", OF disjI2 [OF m]]
        note L = late [OF clean _ _, of c, OF m [symmetric]]
        from svc loader g \<open>er = None\<close> Some show ?thesis
          by (simp add: Process_body_def Let_def E' L
                split: option.split sum.split jvalue.split)
      qed
    qed
  qed
qed

lemma Process_body_order:
  "reissues_after_verdict (trace (Process_body rs ext now now' issuer owner credID))"
  by (rule Process_body_cases)
     (simp_all add: fails_simps reissues_after_verdict_clean Process_reissue_order)

lemma Process_body_abort:
  "IndexImpact_verdict None \<notin> set (trace (Process_body rs ext now now' issuer owner credID))
   \<longrightarrow> returned (outcome (Process_body rs ext now now' issuer owner credID))
   \<longrightarrow> is_error (outcome (Process_body rs ext now now' issuer owner credID))"
  by (rule Process_body_cases) (simp_all add: fails_simps Process_reissue_abort)

lemma Process_body_result:
  "\<forall>fetched e. outcome (Process_body rs ext now now' issuer owner credID) = Returns (fetched, e)
     \<longrightarrow> (fetched = None) = (e \<noteq> None)"
  by (rule Process_body_cases) (auto simp: fails_simps dest: Process_reissue_result)

lemma is_error_iff: "is_error r = (\<exists>e. r = Returns (None, Some e))"
  by (cases r rule: is_error.cases) simp_all

text \<open>
  In every run of \<^verbatim>\<open>Process\<close>, a call of \<^verbatim>\<open>CreateCredential\<close> and a POST request to
  the issuing authority come only after the index impact check has returned nil, the
  verdict "updated". A run in which the check never returns nil reissues nothing, and if
  its body returns, it returns an error and no credential.
\<close>

lemma Process_reissues_only_after_Updated:
  "(trace (Process_body rs ext now now' issuer owner credID) = pre @ e # post
      \<and> is_reissuance e \<longrightarrow> IndexImpact_verdict None \<in> set pre)
   \<and> (IndexImpact_verdict None \<notin> set (trace (Process_body rs ext now now' issuer owner credID))
      \<longrightarrow> \<not> list_ex is_reissuance (trace (Process_body rs ext now now' issuer owner credID))
          \<and> (returned (outcome (Process_body rs ext now now' issuer owner credID))
               \<longrightarrow> (\<exists>err. Process rs ext now now' issuer owner credID = (None, Some err))))"
proof (intro conjI impI)
  let ?R = "Process_body rs ext now now' issuer owner credID"
  note ord = Process_body_order [of rs ext now now' issuer owner credID]
  {
    assume "trace ?R = pre @ e # post \<and> is_reissuance e"
    then show "IndexImpact_verdict None \<in> set pre"
      using reissues_after_verdict_split [OF ord] by blast
  }
  assume never: "IndexImpact_verdict None \<notin> set (trace ?R)"
  show "\<not> list_ex is_reissuance (trace ?R)"
  proof
    assume "list_ex is_reissuance (trace ?R)"
    then obtain ev where "ev \<in> set (trace ?R)" and r: "is_reissuance ev"
      by (auto simp: list_ex_iff)
    then obtain ps qs where s: "trace ?R = ps @ ev # qs"
      by (auto dest: split_list)
    from reissues_after_verdict_split [OF ord s r] have "IndexImpact_verdict None \<in> set ps" .
    with s never show False by simp
  qed
  assume "returned (outcome ?R)"
  with never Process_body_abort [of rs ext now now' issuer owner credID]
  obtain err where "outcome ?R = Returns (None, Some err)"
    by (auto simp: is_error_iff)
  then show "\<exists>err. Process rs ext now now' issuer owner credID = (None, Some err)"
    by (simp add: Process_def)
qed

lemma Process_reissues_only_after_Updated_example:
  "is_reissuance (trace (Process_body example_service
            (example_externals MerklizedRootPositionNone example_credential) 2000 3000
            ''did:example:issuer'' ''did:example:holder'' ''urn:uuid:1'') ! 3)
   \<and> IndexImpact_verdict None \<in> set (take 3 (trace (Process_body example_service
            (example_externals MerklizedRootPositionNone example_credential) 2000 3000
            ''did:example:issuer'' ''did:example:holder'' ''urn:uuid:1'')))
   \<and> \<not> list_ex is_reissuance
         (trace (Process_body example_service
            (example_externals MerklizedRootPositionValue example_credential) 2000 3000
            ''did:example:issuer'' ''did:example:holder'' ''urn:uuid:1''))
   \<and> (\<exists>err. Process example_service
            (example_externals MerklizedRootPositionValue example_credential) 2000 3000
            ''did:example:issuer'' ''did:example:holder'' ''urn:uuid:1'' = (None, Some err))"
proof -
  let ?get = "\<lambda>claimID. HTTP_Do \<lparr>http_method = ''GET'',
        http_url = ''http://issuer/v2/identities/did:example:issuer/credentials/'' @ claimID,
        http_auth = Some (''user'', ''password''), http_body = None\<rparr>"
  let ?req = "\<lparr>req_CredentialSchema = ''https://example.org/schema.json'',
        req_Type = ''ExampleCredential'',
        req_CredentialSubject = Some [(''id'', JStr ''did:example:holder''),
          (''type'', JStr ''ExampleCredential''), (''birthday'', JNum 19960425)],
        req_Expiration = 300, req_RefreshService = None,
        req_RevNonce = Some 5, req_DisplayMethod = None\<rparr>"
  let ?pre = "[GetClaimByID_call ''did:example:issuer'' ''urn:uuid:1'', ?get ''urn:uuid:1'',
        IndexImpact_verdict None]"
  let ?post = "[HTTP_Do \<lparr>http_method = ''POST'',
        http_url = ''http://issuer/v2/identities/did:example:issuer/credentials'',
        http_auth = Some (''user'', ''password''), http_body = Some ''{}''\<rparr>,
      GetClaimByID_call ''did:example:issuer'' ''urn:uuid:2'', ?get ''urn:uuid:2'']"
  let ?R1 = "Process_body example_service
      (example_externals MerklizedRootPositionNone example_credential) 2000 3000
      ''did:example:issuer'' ''did:example:holder'' ''urn:uuid:1''"
  let ?R2 = "Process_body example_service
      (example_externals MerklizedRootPositionValue example_credential) 2000 3000
      ''did:example:issuer'' ''did:example:holder'' ''urn:uuid:1''"
  have t1: "trace ?R1 = ?pre @ CreateCredential_call ''did:example:issuer'' ?req # ?post"
    by (simp add: pipeline_defs deployment_defs TrimSpace_example)
  have t2: "trace ?R2 = [GetClaimByID_call ''did:example:issuer'' ''urn:uuid:1'',
        ?get ''urn:uuid:1'', IndexImpact_verdict (Some ''no index fields were updated'')]"
    and o2: "returned (outcome ?R2)"
    by (simp_all add: pipeline_defs deployment_defs TrimSpace_example)
  have r: "is_reissuance (CreateCredential_call ''did:example:issuer'' ?req)"
    by simp
  have n: "IndexImpact_verdict None \<notin> set (trace ?R2)"
    unfolding t2 by simp
  from Process_reissues_only_after_Updated
         [of example_service "example_externals MerklizedRootPositionNone example_credential"
             2000 3000 "''did:example:issuer''" "''did:example:holder''" "''urn:uuid:1''"
             ?pre "CreateCredential_call ''did:example:issuer'' ?req" ?post]
       t1 r
  have "IndexImpact_verdict None \<in> set ?pre" by blast
  moreover
  from Process_reissues_only_after_Updated
         [of example_service "example_externals MerklizedRootPositionValue example_credential"
             2000 3000 "''did:example:issuer''" "''did:example:holder''" "''urn:uuid:1''"]
       n o2
  have "\<not> list_ex is_reissuance (trace ?R2)
        \<and> (\<exists>err. Process example_service
            (example_externals MerklizedRootPositionValue example_credential) 2000 3000
            ''did:example:issuer'' ''did:example:holder'' ''urn:uuid:1'' = (None, Some err))"
    by blast
  ultimately show ?thesis by (simp add: t1)
qed

text \<open>
  C6 does not hold of the code. In the run below the comparison of two arrays makes the
  index impact check panic, so the check never returns the verdict "updated". Nothing is
  reissued, but \<^verbatim>\<open>Process\<close> does not abort with an error: after the recovered panic the
  caller receives a nil credential together with a nil error.
\<close>

theorem Process_panic_aborts_without_error:
  "trace (Process_body array_service
      (example_externals MerklizedRootPositionNone array_credential) 2000 3000
      ''did:example:issuer'' ''did:example:holder'' ''urn:uuid:1'')
     = [GetClaimByID_call ''did:example:issuer'' ''urn:uuid:1'',
        HTTP_Do \<lparr>http_method = ''GET'',
          http_url = ''http://issuer/v2/identities/did:example:issuer/credentials/urn:uuid:1'',
          http_auth = Some (''user'', ''password''), http_body = None\<rparr>]
   \<and> IndexImpact_verdict None \<notin> set (trace (Process_body array_service
      (example_externals MerklizedRootPositionNone array_credential) 2000 3000
      ''did:example:issuer'' ''did:example:holder'' ''urn:uuid:1''))
   \<and> \<not> list_ex is_reissuance (trace (Process_body array_service
      (example_externals MerklizedRootPositionNone array_credential) 2000 3000
      ''did:example:issuer'' ''did:example:holder'' ''urn:uuid:1''))
   \<and> Process array_service
      (example_externals MerklizedRootPositionNone array_credential) 2000 3000
      ''did:example:issuer'' ''did:example:holder'' ''urn:uuid:1'' = (None, None)"
  by (simp add: pipeline_defs deployment_defs array_service_def array_credential_def
        array_subject_def TrimSpace_example)

text \<open>
  C9, amended. Whatever credential is in memory when the body of \<^verbatim>\<open>Process\<close> ends, it is
  the fetched credential with every field unchanged except the context list and the
  subject: the context list is either unchanged or was nil and is now the empty list, and
  the subject is either unchanged or the result of the merge step.
\<close>

theorem Process_writes_subject_and_nil_context_only:
  "memory (Process_body rs ext now now' issuer owner credID) = Some m \<longrightarrow>
     (\<exists>c. fetched_credential rs ext issuer credID = Some c
        \<and> ID m = ID c \<and> Type m = Type c \<and> Expiration m = Expiration c
        \<and> CredentialStatus m = CredentialStatus c \<and> Issuer m = Issuer c
        \<and> CredentialSchema_ID m = CredentialSchema_ID c
        \<and> RefreshService m = RefreshService c \<and> DisplayMethod m = DisplayMethod c
        \<and> (Context m = Context c \<or> (Context c = None \<and> Context m = Some []))
        \<and> (CredentialSubject m = CredentialSubject c
             \<or> (\<exists>subject updatedFields. CredentialSubject c = Some subject
                   \<and> CredentialSubject m = Some (merge_subject subject updatedFields))))"
proof -
  let ?Q = "\<exists>c. fetched_credential rs ext issuer credID = Some c
        \<and> ID m = ID c \<and> Type m = Type c \<and> Expiration m = Expiration c
        \<and> CredentialStatus m = CredentialStatus c \<and> Issuer m = Issuer c
        \<and> CredentialSchema_ID m = CredentialSchema_ID c
        \<and> RefreshService m = RefreshService c \<and> DisplayMethod m = DisplayMethod c
        \<and> (Context m = Context c \<or> (Context c = None \<and> Context m = Some []))
        \<and> (CredentialSubject m = CredentialSubject c
             \<or> (\<exists>subject updatedFields. CredentialSubject c = Some subject
                   \<and> CredentialSubject m = Some (merge_subject subject updatedFields)))"
  have "memory (Process_body rs ext now now' issuer owner credID) = Some m \<longrightarrow> ?Q"
  proof (rule Process_body_cases)
    fix m' tr e
    assume a: "m' = None \<or> m' = fetched_credential rs ext issuer credID"
    show "memory (fails m' tr e) = Some m \<longrightarrow> ?Q"
    proof
      assume "memory (fails m' tr e) = Some m"
      with a have "fetched_credential rs ext issuer credID = Some m"
        by (auto simp: fails_simps)
      then show ?Q
        by (intro exI [of _ m]) simp
    qed
  next
    fix isv tr c subject subjectType te upd
    assume f: "fetched_credential rs ext issuer credID = Some c"
      and s: "CredentialSubject c = Some subject"
    show "memory (Process_reissue rs ext isv now' tr issuer c subject subjectType te upd)
            = Some m \<longrightarrow> ?Q"
    proof
      assume mem: "memory (Process_reissue rs ext isv now' tr issuer c subject subjectType te upd)
                     = Some m"
      from Process_reissue_memory [OF mem]
      have shape: "m = c \<or> m = c\<lparr>Context := Some []\<rparr>
           \<or> m = c\<lparr>CredentialSubject := Some (merge_subject subject upd)\<rparr>
           \<or> m = c\<lparr>Context := Some [],
                    CredentialSubject := Some (merge_subject subject upd)\<rparr>"
        and ctx: "Context m \<noteq> Context c \<longrightarrow> Context c = None"
        by blast+
      from shape have fields: "ID m = ID c \<and> Type m = Type c \<and> Expiration m = Expiration c
          \<and> CredentialStatus m = CredentialStatus c \<and> Issuer m = Issuer c
          \<and> CredentialSchema_ID m = CredentialSchema_ID c
          \<and> RefreshService m = RefreshService c \<and> DisplayMethod m = DisplayMethod c"
        by auto
      from shape ctx
      have c: "Context m = Context c \<or> (Context c = None \<and> Context m = Some [])"
        by auto
      from shape s have sub: "CredentialSubject m = CredentialSubject c
               \<or> (\<exists>subject updatedFields. CredentialSubject c = Some subject
                     \<and> CredentialSubject m = Some (merge_subject subject updatedFields))"
        by auto
      from f fields c sub show ?Q
        by (intro exI [of _ c]) simp
    qed
  qed
  then show ?thesis .
qed

theorem Process_writes_subject_and_nil_context_only_witness:
  "fetched_credential example_service
      (example_externals MerklizedRootPositionNone example_credential)
      ''did:example:issuer'' ''urn:uuid:1'' = Some example_credential
   \<and> memory (Process_body example_service
        (example_externals MerklizedRootPositionNone example_credential) 2000 3000
        ''did:example:issuer'' ''did:example:holder'' ''urn:uuid:1'')
      = Some (example_credential\<lparr>CredentialSubject :=
          Some [(''id'', JStr ''did:example:holder''), (''type'', JStr ''ExampleCredential''),
                (''birthday'', JNum 19960425)]\<rparr>)"
proof -
  let ?ext = "example_externals MerklizedRootPositionNone example_credential"
  let ?R = "Process_body example_service ?ext 2000 3000
        ''did:example:issuer'' ''did:example:holder'' ''urn:uuid:1''"
  let ?m = "example_credential\<lparr>CredentialSubject :=
          Some [(''id'', JStr ''did:example:holder''), (''type'', JStr ''ExampleCredential''),
                (''birthday'', JNum 19960425)]\<rparr>"
  have mem: "memory ?R = Some ?m"
    by (simp add: pipeline_defs deployment_defs TrimSpace_example)
  have f: "fetched_credential example_service ?ext ''did:example:issuer'' ''urn:uuid:1''
           = Some example_credential"
    by (simp add: fetched_credential_def pipeline_defs deployment_defs)
  from Process_writes_subject_and_nil_context_only
         [of example_service ?ext 2000 3000 "''did:example:issuer''" "''did:example:holder''"
             "''urn:uuid:1''" ?m] mem
  obtain c where "fetched_credential example_service ?ext ''did:example:issuer'' ''urn:uuid:1''
           = Some c" and "ID ?m = ID c"
    by blast
  with f mem show ?thesis by simp
qed

text \<open>
  C9 as stated fails: the fetched credential below has a nil context list, and after the
  index impact analysis for merklized root position None its context list in memory is
  the empty list (refresh.go, line 286).
\<close>

theorem Process_writes_context_counterexample:
  "map_option Context (fetched_credential example_service
      (example_externals MerklizedRootPositionNone bare_credential)
      ''did:example:issuer'' ''urn:uuid:1'') = Some None
   \<and> map_option Context (memory (Process_body example_service
        (example_externals MerklizedRootPositionNone bare_credential) 2000 3000
        ''did:example:issuer'' ''did:example:holder'' ''urn:uuid:1'')) = Some (Some [])"
  by (simp add: fetched_credential_def pipeline_defs deployment_defs bare_credential_def
        TrimSpace_example)

lemma map_of_assign: "map_of (assign k v m) = (map_of m)(k \<mapsto> v)"
  by (induction m) auto

lemma map_of_merge_subject:
  "map_of (merge_subject subject updatedFields) =
     map_of subject ++ map_of (rev updatedFields)"
proof (induction updatedFields arbitrary: subject)
  case Nil
  show ?case by simp
next
  case (Cons entry updatedFields)
  obtain k v where e: "entry = (k, v)" by (cases entry)
  show ?case
    unfolding e by (simp add: Cons.IH map_of_assign map_add_def fun_eq_iff split: option.splits)
qed

lemma map_of_rev_distinct:
  "distinct (map fst xs) \<Longrightarrow> map_of (rev xs) k = map_of xs k"
proof (induction xs)
  case Nil
  show ?case by simp
next
  case (Cons x xs)
  then have "fst x \<notin> fst ` set xs" and IH: "map_of (rev xs) k = map_of xs k"
    by simp_all
  then have "map_of xs (fst x) = None"
    by (simp add: map_of_eq_None_iff)
  with IH show ?case
    by (cases x) (auto simp: map_add_def split: option.splits)
qed

text \<open>
  C2, amended. The subject produced by the merge step has, under every key the provider
  did not return, the value the original subject has there; so a refresh leaves the owner
  identifier \<^verbatim>\<open>id\<close> as it was whenever the provider does not return the key \<^verbatim>\<open>id\<close>.
  Under a key the provider returns, \<^verbatim>\<open>id\<close> included, the merged subject has the
  provider's value.
\<close>

theorem merge_subject_overlay:
  "(k \<notin> fst ` set updatedFields \<longrightarrow>
      map_of (merge_subject subject updatedFields) k = map_of subject k)
   \<and> (distinct (map fst updatedFields) \<and> map_of updatedFields k = Some v \<longrightarrow>
      map_of (merge_subject subject updatedFields) k = Some v)"
proof (intro conjI impI)
  assume "k \<notin> fst ` set updatedFields"
  then have "map_of (rev updatedFields) k = None"
    by (simp add: map_of_eq_None_iff)
  then show "map_of (merge_subject subject updatedFields) k = map_of subject k"
    by (simp add: map_of_merge_subject map_add_def)
next
  assume "distinct (map fst updatedFields) \<and> map_of updatedFields k = Some v"
  then have "map_of (rev updatedFields) k = Some v"
    by (simp add: map_of_rev_distinct)
  then show "map_of (merge_subject subject updatedFields) k = Some v"
    by (simp add: map_of_merge_subject map_add_def)
qed

theorem merge_subject_overlay_witness:
  "map_of (merge_subject example_subject [(''birthday'', JNum 19960425)]) ''id''
     = Some (JStr ''did:example:holder'')
   \<and> map_of (merge_subject example_subject [(''birthday'', JNum 19960425)]) ''birthday''
     = Some (JNum 19960425)"
proof -
  have a: "''id'' \<notin> fst ` set [(''birthday'', JNum 19960425)]"
    and b: "distinct (map fst [(''birthday'', JNum 19960425)])
            \<and> map_of [(''birthday'', JNum 19960425)] ''birthday'' = Some (JNum 19960425)"
    by simp_all
  from a merge_subject_overlay [of "''id''" "[(''birthday'', JNum 19960425)]" example_subject]
  have "map_of (merge_subject example_subject [(''birthday'', JNum 19960425)]) ''id''
          = map_of example_subject ''id''"
    by blast
  moreover
  from b merge_subject_overlay [of "''birthday''" "[(''birthday'', JNum 19960425)]"
      example_subject "JNum 19960425"]
  have "map_of (merge_subject example_subject [(''birthday'', JNum 19960425)]) ''birthday''
          = Some (JNum 19960425)"
    by blast
  ultimately show ?thesis by (simp add: example_subject_def)
qed

text \<open>
  C2 as stated fails: a provider that returns the key \<^verbatim>\<open>id\<close> changes the owner
  identifier. The credential fetched for its owner \<^verbatim>\<open>did:example:holder\<close> is reissued
  with the subject id \<^verbatim>\<open>did:example:other\<close>.
\<close>

theorem Process_changes_id_counterexample:
  "map_option subject_id (fetched_credential id_service
      (example_externals MerklizedRootPositionIndex example_credential)
      ''did:example:issuer'' ''urn:uuid:1'') = Some (Some (JStr ''did:example:holder''))
   \<and> map_option subject_id (memory (Process_body id_service
        (example_externals MerklizedRootPositionIndex example_credential) 2000 3000
        ''did:example:issuer'' ''did:example:holder'' ''urn:uuid:1''))
      = Some (Some (JStr ''did:example:other''))
   \<and> CreateCredential_call ''did:example:issuer''
        \<lparr>req_CredentialSchema = ''https://example.org/schema.json'',
         req_Type = ''ExampleCredential'',
         req_CredentialSubject = Some [(''id'', JStr ''did:example:other''),
           (''type'', JStr ''ExampleCredential''), (''birthday'', JNum 19960424)],
         req_Expiration = 300, req_RefreshService = None,
         req_RevNonce = Some 5, req_DisplayMethod = None\<rparr>
      \<in> set (trace (Process_body id_service
        (example_externals MerklizedRootPositionIndex example_credential) 2000 3000
        ''did:example:issuer'' ''did:example:holder'' ''urn:uuid:1''))"
  by (simp add: fetched_credential_def subject_id_def pipeline_defs deployment_defs
        id_service_def TrimSpace_example)

text \<open>
  When the body of \<^verbatim>\<open>Process\<close> returns, it returns a credential or an error and never
  both or neither.
\<close>

lemma Process_returns_credential_or_error:
  assumes "returned (outcome (Process_body rs ext now now' issuer owner credID))"
    and "Process rs ext now now' issuer owner credID = (fetched, e)"
  shows "(fetched = None) = (e \<noteq> None)"
proof -
  from assms(1) obtain r where r: "outcome (Process_body rs ext now now' issuer owner credID) = Returns r"
    by (cases "outcome (Process_body rs ext now now' issuer owner credID)") auto
  with assms(2) have "r = (fetched, e)"
    by (simp add: Process_def)
  with r Process_body_result [of rs ext now now' issuer owner credID] show ?thesis
    by blast
qed

text \<open>
  C1 does not hold of the code. In the run below the comparison of two arrays in the
  index impact check panics. The deferred function of \<^verbatim>\<open>Process\<close> recovers the panic
  and logs it, and the caller receives a nil credential together with a nil error.
\<close>

theorem Process_recovered_panic_returns_nil_nil:
  "outcome (Process_body array_service
      (example_externals MerklizedRootPositionNone array_credential) 2000 3000
      ''did:example:issuer'' ''did:example:holder'' ''urn:uuid:1'')
     = Panics ''runtime error: comparing uncomparable type []interface {}''
   \<and> Process array_service
      (example_externals MerklizedRootPositionNone array_credential) 2000 3000
      ''did:example:issuer'' ''did:example:holder'' ''urn:uuid:1'' = (None, None)"
  by (simp add: pipeline_defs deployment_defs array_service_def array_credential_def
        array_subject_def TrimSpace_example)

end
